theory Spec2Isabelle
  imports Complex_Main
begin

section \<open>Conventions\<close>

text \<open>
  The repository is a set of Python scripts that drive transaction load against a Sei
  node and sample its block cadence: \<^verbatim>\<open>stress_test_blocktime.py\<close>, its repaired copy
  \<^verbatim>\<open>stress_test_blocktime_fixed.py\<close>, the high-throughput copy
  \<^verbatim>\<open>stress_test_20k_tps.py\<close> and the read-only monitor \<^verbatim>\<open>simple_blocktime_test.py\<close>.

  \<^item> Python floats (clock readings, interval samples, rates) are idealised as \<^typ>\<open>real\<close>:
    rounding is not modelled. Python's unbounded integers are \<^typ>\<open>int\<close>, counts that the
    code only ever increments from zero are \<^typ>\<open>nat\<close>.
  \<^item> Every value the outside world supplies (an RPC answer, a clock reading, a random
    draw, a signature) is a parameter of the model.
  \<^item> A raised exception is a value \<open>Inl e\<close> of \<open>py_error + 'a\<close>.
  \<^item> A deadline loop \<^verbatim>\<open>while time.time() - start_time < duration_seconds\<close> is modelled
    over the finite list of iterations that ran before the deadline.
\<close>

datatype py_error =
    ZeroDivisionError
  | StatisticsError
  | KeyError
  | ValueError
  | TypeError
  | RpcError
  | SigningError

section \<open>Block monitors\<close>

subsection \<open>What one poll observes\<close>

text \<open>
  One iteration of a monitor loop asks the node for its height; the timestamp monitor
  then asks for the block, the clock monitor reads \<^verbatim>\<open>time.perf_counter()\<close>.
  \<open>height\<close> is \<^verbatim>\<open>get_block_height(session)\<close>, \<open>None\<close> when the call raises;
  \<open>timestamp\<close> is \<^verbatim>\<open>int(block_data['timestamp'], 16)\<close> of the block at that height,
  \<open>None\<close> when \<^verbatim>\<open>get_block_by_number\<close> or the parse raises; \<open>perf_counter\<close> is the
  monotonic clock (seconds) at the poll.
\<close>

record poll =
  height :: "int option"
  timestamp :: "int option"
  perf_counter :: real

record monitor_base =
  last_block :: int
  blocks_produced :: int
  block_times :: "real list"

record perf_monitor = monitor_base +
  last_block_time :: real
  block_time_measurements :: "real list"

record ts_monitor = monitor_base +
  last_timestamp :: "int option"

subsection \<open>The clock monitor (stress_test_blocktime_fixed.py, stress_test_20k_tps.py)\<close>

text \<open>
  The body of the \<^verbatim>\<open>while\<close> loop of \<^verbatim>\<open>monitor_blocks\<close>, the same text in
  \<^verbatim>\<open>stress_test_blocktime_fixed.py\<close> (lines 84-115) and \<^verbatim>\<open>stress_test_20k_tps.py\<close>
  (lines 93-124). An exception of the height query is caught and printed; the state is
  unchanged. The progress line printed every tenth detection reads the lists and changes
  nothing (the lists are non-empty there, so \<^verbatim>\<open>statistics.mean\<close> does not raise).
\<close>

definition perf_poll :: "perf_monitor \<Rightarrow> poll \<Rightarrow> perf_monitor" where
  "perf_poll st p =
     (case height p of
        None \<Rightarrow> st
      | Some current_block \<Rightarrow>
          if current_block > last_block st then
            (let current_block_time = perf_counter p;
                 blocks_diff = current_block - last_block st;
                 time_diff_ms = (current_block_time - last_block_time st) * 1000;
                 avg_block_time_ms = time_diff_ms / real_of_int blocks_diff;
                 recorded = replicate (nat blocks_diff) avg_block_time_ms
             in st\<lparr>last_block := current_block,
                   blocks_produced := blocks_produced st + blocks_diff,
                   block_times := block_times st @ recorded,
                   last_block_time := current_block_time,
                   block_time_measurements := block_time_measurements st @ recorded\<rparr>)
          else st)"

text \<open>
  \<^verbatim>\<open>monitor_blocks\<close> of \<^verbatim>\<open>stress_test_blocktime_fixed.py\<close>. \<open>samples\<close> is
  \<^verbatim>\<open>self.block_times\<close> on entry, \<open>h0\<close> the first height query (outside the \<^verbatim>\<open>try\<close>:
  its exception leaves the function), \<open>t0\<close> the clock read after it, \<open>polls\<close> the
  iterations before the deadline. The result is the state when the loop ends; the
  function returns its \<open>blocks_produced\<close> and leaves \<open>block_times\<close> in the object.
\<close>

definition monitor_blocks_fixed ::
  "real list \<Rightarrow> int option \<Rightarrow> real \<Rightarrow> poll list \<Rightarrow> py_error + perf_monitor" where
  "monitor_blocks_fixed samples h0 t0 polls =
     (case h0 of
        None \<Rightarrow> Inl RpcError
      | Some h \<Rightarrow>
          Inr (foldl perf_poll
                 \<lparr>last_block = h, blocks_produced = 0, block_times = samples,
                  last_block_time = t0, block_time_measurements = []\<rparr> polls))"

text \<open>\<^verbatim>\<open>monitor_blocks\<close> of \<^verbatim>\<open>stress_test_20k_tps.py\<close>: the same loop over a session
  with a connection pool.\<close>

definition monitor_blocks_20k ::
  "real list \<Rightarrow> int option \<Rightarrow> real \<Rightarrow> poll list \<Rightarrow> py_error + perf_monitor" where
  "monitor_blocks_20k samples h0 t0 polls =
     (case h0 of
        None \<Rightarrow> Inl RpcError
      | Some h \<Rightarrow>
          Inr (foldl perf_poll
                 \<lparr>last_block = h, blocks_produced = 0, block_times = samples,
                  last_block_time = t0, block_time_measurements = []\<rparr> polls))"

subsection \<open>The timestamp monitor (stress_test_blocktime.py)\<close>

text \<open>
  The body of the \<^verbatim>\<open>while\<close> loop of \<^verbatim>\<open>monitor_blocks\<close> in
  \<^verbatim>\<open>stress_test_blocktime.py\<close> (lines 80-112). \<^verbatim>\<open>if last_timestamp:\<close> is Python
  truthiness: false for \<^verbatim>\<open>None\<close> and for the integer 0. An exception of either query is
  caught before anything is assigned.
\<close>

definition ts_poll :: "ts_monitor \<Rightarrow> poll \<Rightarrow> ts_monitor" where
  "ts_poll st p =
     (case height p of
        None \<Rightarrow> st
      | Some current_block \<Rightarrow>
          if current_block > last_block st then
            (case timestamp p of
               None \<Rightarrow> st
             | Some current_timestamp \<Rightarrow>
                 st\<lparr>last_block := current_block,
                    blocks_produced := blocks_produced st + 1,
                    block_times :=
                      (case last_timestamp st of
                         None \<Rightarrow> block_times st
                       | Some lt \<Rightarrow>
                           if lt = 0 then block_times st
                           else
                             (let block_time_s = current_timestamp - lt;
                                  block_time_ms =
                                    (if block_time_s = 0 then 85 else block_time_s * 1000)
                              in block_times st @ [real_of_int block_time_ms])),
                    last_timestamp := Some current_timestamp\<rparr>)
          else st)"

definition monitor_blocks_blocktime ::
  "real list \<Rightarrow> int option \<Rightarrow> poll list \<Rightarrow> py_error + ts_monitor" where
  "monitor_blocks_blocktime samples h0 polls =
     (case h0 of
        None \<Rightarrow> Inl RpcError
      | Some h \<Rightarrow>
          Inr (foldl ts_poll
                 \<lparr>last_block = h, blocks_produced = 0, block_times = samples,
                  last_timestamp = None\<rparr> polls))"

subsection \<open>The timestamp monitor of simple_blocktime_test.py\<close>

text \<open>
  What \<^verbatim>\<open>make_rpc_call(session, "eth_getBlockByNumber", ["latest", False])\<close> gives:
  \<open>NoResult\<close> when the call raised (it returns \<^verbatim>\<open>None\<close>) or the answer has no
  \<^verbatim>\<open>'result'\<close> key; \<open>NullBlock\<close> when \<^verbatim>\<open>result['result']\<close> is no block, so that reading
  its number raises; \<open>Block number timestamp\<close> otherwise, both parsed from hexadecimal.
\<close>

datatype rpc_block = NoResult | NullBlock | Block int int

record simple_monitor =
  last_block_number :: int
  last_timestamp_sm :: int
  blocks_produced_sm :: nat
  block_times_sm :: "real list"

text \<open>
  The body of the \<^verbatim>\<open>while\<close> loop of \<^verbatim>\<open>monitor_block_production\<close> (lines 93-135).
  No \<^verbatim>\<open>except\<close> clause surrounds it: an exception leaves the function.
\<close>

definition simple_poll :: "simple_monitor \<Rightarrow> rpc_block \<Rightarrow> py_error + simple_monitor" where
  "simple_poll st r =
     (case r of
        NoResult \<Rightarrow> Inr st
      | NullBlock \<Rightarrow> Inl TypeError
      | Block current_block_number current_timestamp \<Rightarrow>
          if current_block_number > last_block_number st then
            (let block_time_seconds = current_timestamp - last_timestamp_sm st;
                 block_time_ms = block_time_seconds * 1000;
                 block_time_ms' = (if block_time_ms = 0 then 85 else block_time_ms)
             in Inr (st\<lparr>block_times_sm := block_times_sm st @ [real_of_int block_time_ms'],
                        blocks_produced_sm := blocks_produced_sm st + 1,
                        last_block_number := current_block_number,
                        last_timestamp_sm := current_timestamp\<rparr>))
          else Inr st)"

fun simple_loop :: "simple_monitor \<Rightarrow> rpc_block list \<Rightarrow> py_error + simple_monitor" where
  "simple_loop st [] = Inr st"
| "simple_loop st (r # rs) =
     (case simple_poll st r of Inl e \<Rightarrow> Inl e | Inr st' \<Rightarrow> simple_loop st' rs)"

section \<open>Statistics\<close>

subsection \<open>Python's arithmetic and the statistics module\<close>

text \<open>
  These are Python's own operations (the standard library, not code of the repository),
  written with the exceptions they raise: \<^verbatim>\<open>a / b\<close>, \<^verbatim>\<open>a // b\<close>, \<^verbatim>\<open>min\<close>, \<^verbatim>\<open>max\<close>,
  \<^verbatim>\<open>statistics.mean\<close>, \<^verbatim>\<open>statistics.stdev\<close> (the sample standard deviation, which
  divides by \<open>n - 1\<close> and refuses fewer than two points) and
  \<^verbatim>\<open>statistics.quantiles(data, n=20)[18]\<close> (the default, exclusive, method).
\<close>

definition bind_err :: "py_error + 'a \<Rightarrow> ('a \<Rightarrow> py_error + 'b) \<Rightarrow> py_error + 'b" where
  "bind_err m f = (case m of Inl e \<Rightarrow> Inl e | Inr v \<Rightarrow> f v)"

definition py_div :: "real \<Rightarrow> real \<Rightarrow> py_error + real" where
  "py_div a b = (if b = 0 then Inl ZeroDivisionError else Inr (a / b))"

definition py_floordiv :: "nat \<Rightarrow> nat \<Rightarrow> py_error + nat" where
  "py_floordiv a b = (if b = 0 then Inl ZeroDivisionError else Inr (a div b))"

definition py_min :: "real list \<Rightarrow> py_error + real" where
  "py_min xs = (case xs of [] \<Rightarrow> Inl ValueError | x # rest \<Rightarrow> Inr (fold min rest x))"

definition py_max :: "real list \<Rightarrow> py_error + real" where
  "py_max xs = (case xs of [] \<Rightarrow> Inl ValueError | x # rest \<Rightarrow> Inr (fold max rest x))"

definition statistics_mean :: "real list \<Rightarrow> py_error + real" where
  "statistics_mean xs =
     (if xs = [] then Inl StatisticsError else Inr (sum_list xs / real (length xs)))"

definition statistics_stdev :: "real list \<Rightarrow> py_error + real" where
  "statistics_stdev xs =
     (if length xs < 2 then Inl StatisticsError
      else
        (let m = sum_list xs / real (length xs)
         in bind_err (py_div (sum_list (map (\<lambda>x. (x - m) ^ 2) xs)) (real (length xs - 1)))
              (\<lambda>variance. Inr (sqrt variance))))"

definition statistics_quantiles20_18 :: "real list \<Rightarrow> py_error + real" where
  "statistics_quantiles20_18 xs =
     (let data = sort xs; ld = length data
      in if ld < 2 then Inl StatisticsError
         else
           (let m = ld + 1;
                j0 = (19 * m) div 20;
                j = (if j0 < 1 then 1 else if j0 > ld - 1 then ld - 1 else j0);
                delta = int (19 * m) - int (j * 20)
            in Inr ((data ! (j - 1) * real_of_int (20 - delta) + data ! j * real_of_int delta)
                    / 20)))"

subsection \<open>The final statistics of simple_blocktime_test.py\<close>

text \<open>
  What \<^verbatim>\<open>monitor_block_production\<close> prints after its loop (lines 146-191). A field that
  is \<open>None\<close> is a line the function does not print. The percentile indices
  \<^verbatim>\<open>int(len(sorted_times)*0.9)\<close> and the like are written with exact arithmetic.
\<close>

record spread =
  std_deviation :: real
  min_block_time :: real
  max_block_time :: real

record percentiles =
  p50 :: real
  p90 :: real
  p95 :: real
  p99 :: real

record simple_report =
  total_blocks :: nat
  average_block_time :: real
  spread_lines :: "spread option"
  percentile_lines :: "percentiles option"
  share_under_85 :: real
  share_under_100 :: real
  share_under_150 :: real
  effective_rps :: "real option"

datatype simple_output = CannotConnect | NoNewBlocks | Statistics simple_report

definition share_under :: "real \<Rightarrow> real list \<Rightarrow> py_error + real" where
  "share_under limit xs =
     bind_err (py_div (real (length (filter (\<lambda>t. t \<le> limit) xs))) (real (length xs)))
       (\<lambda>q. Inr (q * 100))"

definition simple_spread :: "real list \<Rightarrow> py_error + spread option" where
  "simple_spread xs =
     (if length xs > 1 then
        bind_err (statistics_stdev xs) (\<lambda>sd.
        bind_err (py_min xs) (\<lambda>lo.
        bind_err (py_max xs) (\<lambda>hi.
          Inr (Some \<lparr>std_deviation = sd, min_block_time = lo, max_block_time = hi\<rparr>))))
      else Inr None)"

definition simple_percentiles :: "real list \<Rightarrow> percentiles option" where
  "simple_percentiles xs =
     (if length xs > 1 \<and> length xs \<ge> 10 then
        (let sorted_times = sort xs; n = length sorted_times
         in Some \<lparr>p50 = sorted_times ! (n div 2),
                  p90 = sorted_times ! ((n * 9) div 10),
                  p95 = sorted_times ! ((n * 95) div 100),
                  p99 = (if n > 100 then sorted_times ! ((n * 99) div 100)
                         else sorted_times ! (n - 1))\<rparr>)
      else None)"

definition final_statistics ::
  "real list \<Rightarrow> nat \<Rightarrow> bool \<Rightarrow> nat \<Rightarrow> real \<Rightarrow> py_error + simple_output" where
  "final_statistics xs produced generate_load request_count duration_seconds =
     (if xs \<noteq> [] then
        bind_err (statistics_mean xs) (\<lambda>avg.
        bind_err (simple_spread xs) (\<lambda>sp.
        bind_err (share_under 85 xs) (\<lambda>s85.
        bind_err (share_under 100 xs) (\<lambda>s100.
        bind_err (share_under 150 xs) (\<lambda>s150.
        bind_err (if generate_load
                  then bind_err (py_div (real request_count) duration_seconds)
                         (\<lambda>rps. Inr (Some rps))
                  else Inr None) (\<lambda>rps.
          Inr (Statistics
                 \<lparr>total_blocks = produced, average_block_time = avg, spread_lines = sp,
                  percentile_lines = simple_percentiles xs, share_under_85 = s85,
                  share_under_100 = s100, share_under_150 = s150,
                  effective_rps = rps\<rparr>)))))))
      else Inr NoNewBlocks)"

text \<open>
  The load task \<^verbatim>\<open>generate_read_load(session, load_rps)\<close>, created when
  \<^verbatim>\<open>generate_load\<close> is set. Its first statement \<^verbatim>\<open>delay = 1.0 / requests_per_second\<close>
  raises when the rate is zero; after it the task loops for ever and catches what its
  requests raise. The task first runs when the monitor first awaits, in the first
  iteration of its loop. The \<^verbatim>\<open>finally\<close> block cancels the task and awaits it: a task
  that is still running, or has not run yet, ends cancelled (\<open>None\<close>); one that has
  raised hands its exception to the \<^verbatim>\<open>await\<close>, which re-raises it in place of whatever
  the loop ended with.
\<close>

definition load_task_failure :: "bool \<Rightarrow> real \<Rightarrow> nat \<Rightarrow> py_error option" where
  "load_task_failure generate_load load_rps iterations =
     (if generate_load \<and> iterations > 0 \<and> load_rps = 0 then Some ZeroDivisionError
      else None)"

text \<open>
  \<^verbatim>\<open>monitor_block_production\<close>: \<open>samples\<close> is \<^verbatim>\<open>self.block_times\<close> on entry, \<open>first\<close>
  the block asked for before the loop, \<open>polls\<close> the answers of the loop's iterations,
  \<open>request_count\<close> the value of that counter when the statistics are printed.
\<close>

definition monitor_block_production ::
  "real list \<Rightarrow> rpc_block \<Rightarrow> rpc_block list \<Rightarrow> bool \<Rightarrow> real \<Rightarrow> nat \<Rightarrow> real
     \<Rightarrow> py_error + simple_output"
  where
  "monitor_block_production samples first polls generate_load load_rps request_count
       duration_seconds =
     (case first of
        NoResult \<Rightarrow> Inr CannotConnect
      | NullBlock \<Rightarrow> Inl TypeError
      | Block n t \<Rightarrow>
          (let looped =
                 simple_loop
                   \<lparr>last_block_number = n, last_timestamp_sm = t, blocks_produced_sm = 0,
                    block_times_sm = samples\<rparr> polls
           in case load_task_failure generate_load load_rps (length polls) of
                Some e \<Rightarrow> Inl e
              | None \<Rightarrow>
                  bind_err looped
                    (\<lambda>st. final_statistics (block_times_sm st) (blocks_produced_sm st)
                             generate_load request_count duration_seconds)))"

subsection \<open>The analysis phase of run_full_test\<close>

text \<open>
  \<^verbatim>\<open>self.tx_results\<close>, the counters of the load generator.
\<close>

record tx_results =
  sent :: nat
  confirmed :: nat
  failed :: nat
  pending :: nat

text \<open>
  The three verdict lines: the check mark (the chain maintained the 85 ms target), the
  tilde (it stayed under 100 ms) and the cross.
\<close>

datatype tier = Maintained | Acceptable | Struggled

record analysis =
  avg_block_time :: real
  std_block_time :: real
  percentile_95 :: real
  min_time :: real
  max_time :: real
  blocks_under_85ms :: nat
  blocks_under_100ms :: nat
  share_85ms :: real
  share_100ms :: real
  transactions_sent :: nat
  transactions_failed :: nat
  effective_tps :: real
  verdict :: tier

record analysis_20k = analysis +
  achievement_rate :: real
  low_tps_note :: bool

text \<open>
  The statistics both analyses start with (\<^verbatim>\<open>stress_test_blocktime.py\<close> lines 254-256,
  the same text in the two other scripts).
\<close>

definition std_or_zero :: "real list \<Rightarrow> py_error + real" where
  "std_or_zero xs = (if length xs > 1 then statistics_stdev xs else Inr 0)"

definition percentile_95_of :: "real list \<Rightarrow> py_error + real" where
  "percentile_95_of xs =
     (if length xs > 20 then statistics_quantiles20_18 xs else py_max xs)"

text \<open>
  Phase 3 of \<^verbatim>\<open>run_full_test\<close> in \<^verbatim>\<open>stress_test_blocktime.py\<close> (lines 253-285) and,
  with the same text, in \<^verbatim>\<open>stress_test_blocktime_fixed.py\<close> (lines 274-306).
  \<open>None\<close> is the run that prints nothing under its results banner: the whole phase
  stands under \<^verbatim>\<open>if self.block_times:\<close>, which has no \<^verbatim>\<open>else\<close>.
\<close>

definition verdict_blocktime :: "real \<Rightarrow> tier" where
  "verdict_blocktime avg =
     (if avg \<le> 85 then Maintained else if avg \<le> 100 then Acceptable else Struggled)"

definition analyse_blocktime ::
  "real list \<Rightarrow> tx_results \<Rightarrow> real \<Rightarrow> py_error + analysis option" where
  "analyse_blocktime xs res stress_duration =
     (if xs \<noteq> [] then
        bind_err (statistics_mean xs) (\<lambda>avg.
        bind_err (std_or_zero xs) (\<lambda>sd.
        bind_err (percentile_95_of xs) (\<lambda>p.
        bind_err (py_min xs) (\<lambda>lo.
        bind_err (py_max xs) (\<lambda>hi.
        bind_err (share_under 85 xs) (\<lambda>s85.
        bind_err (share_under 100 xs) (\<lambda>s100.
        bind_err (py_div (real (sent res)) stress_duration) (\<lambda>tps.
          Inr (Some
                 \<lparr>avg_block_time = avg, std_block_time = sd, percentile_95 = p,
                  min_time = lo, max_time = hi,
                  blocks_under_85ms = length (filter (\<lambda>t. t \<le> 85) xs),
                  blocks_under_100ms = length (filter (\<lambda>t. t \<le> 100) xs),
                  share_85ms = s85, share_100ms = s100,
                  transactions_sent = sent res, transactions_failed = failed res,
                  effective_tps = tps, verdict = verdict_blocktime avg\<rparr>)))))))))
      else Inr None)"

text \<open>
  Phase 3 of \<^verbatim>\<open>run_full_test\<close> in \<^verbatim>\<open>stress_test_20k_tps.py\<close> (lines 304-344): the
  verdict also reads the achieved rate \<^verbatim>\<open>actual_tps\<close>.
\<close>

definition verdict_20k :: "real \<Rightarrow> real \<Rightarrow> tier" where
  "verdict_20k avg actual_tps =
     (if avg \<le> 85 \<and> actual_tps \<ge> 18000 then Maintained
      else if avg \<le> 100 \<and> actual_tps \<ge> 15000 then Acceptable
      else Struggled)"

definition analyse_20k ::
  "real list \<Rightarrow> tx_results \<Rightarrow> real \<Rightarrow> py_error + analysis_20k option" where
  "analyse_20k xs res stress_duration =
     (if xs \<noteq> [] then
        bind_err (statistics_mean xs) (\<lambda>avg.
        bind_err (std_or_zero xs) (\<lambda>sd.
        bind_err (percentile_95_of xs) (\<lambda>p.
        bind_err (py_min xs) (\<lambda>lo.
        bind_err (py_max xs) (\<lambda>hi.
        bind_err (share_under 85 xs) (\<lambda>s85.
        bind_err (share_under 100 xs) (\<lambda>s100.
        bind_err (py_div (real (sent res)) stress_duration) (\<lambda>actual_tps.
          Inr (Some
                 \<lparr>avg_block_time = avg, std_block_time = sd, percentile_95 = p,
                  min_time = lo, max_time = hi,
                  blocks_under_85ms = length (filter (\<lambda>t. t \<le> 85) xs),
                  blocks_under_100ms = length (filter (\<lambda>t. t \<le> 100) xs),
                  share_85ms = s85, share_100ms = s100,
                  transactions_sent = sent res, transactions_failed = failed res,
                  effective_tps = actual_tps, verdict = verdict_20k avg actual_tps,
                  achievement_rate = actual_tps / 20000 * 100,
                  low_tps_note =
                    (\<not> (avg \<le> 85 \<and> actual_tps \<ge> 18000)
                     \<and> \<not> (avg \<le> 100 \<and> actual_tps \<ge> 15000)
                     \<and> actual_tps < 10000)\<rparr>)))))))))
      else Inr None)"

text \<open>
  The baseline lines of phase 1 (\<^verbatim>\<open>stress_test_blocktime.py\<close> lines 230-236, the same
  text in the two other scripts).
\<close>

record baseline =
  baseline_avg :: real
  baseline_std :: real
  baseline_min :: real
  baseline_max :: real

definition baseline_results :: "real list \<Rightarrow> py_error + baseline option" where
  "baseline_results xs =
     (if xs \<noteq> [] then
        bind_err (statistics_mean xs) (\<lambda>avg.
        bind_err (std_or_zero xs) (\<lambda>sd.
        bind_err (py_min xs) (\<lambda>lo.
        bind_err (py_max xs) (\<lambda>hi.
          Inr (Some \<lparr>baseline_avg = avg, baseline_std = sd, baseline_min = lo,
                      baseline_max = hi\<rparr>)))))
      else Inr None)"

text \<open>
  \<^verbatim>\<open>run_full_test\<close> of \<^verbatim>\<open>stress_test_blocktime.py\<close>. \<open>is_connected\<close> is
  \<^verbatim>\<open>self.web3.is_connected()\<close>; \<open>h1\<close>, \<open>polls1\<close> feed the baseline monitor and \<open>h2\<close>,
  \<open>polls2\<close> the monitor of the loaded phase, which starts from an emptied
  \<^verbatim>\<open>self.block_times\<close>; \<open>stress\<close> is what the load generator, run beside that monitor,
  ends with (its counters, or the exception that \<^verbatim>\<open>asyncio.gather\<close> re-raises).
  \<open>NotConnected\<close> is the early \<^verbatim>\<open>return\<close>; \<open>Ran b a\<close> carries the baseline lines and the
  lines of the analysis, each \<open>None\<close> when the run printed none. \<open>block_number\<close> is
  the query \<^verbatim>\<open>self.web3.eth.block_number\<close> of the banner, \<open>None\<close> when it raises.
\<close>

datatype 'a run_output = NotConnected | Ran "baseline option" "'a option"

definition banner_query :: "int option \<Rightarrow> py_error + int" where
  "banner_query answer = (case answer of None \<Rightarrow> Inl RpcError | Some v \<Rightarrow> Inr v)"

definition run_full_test_blocktime ::
  "bool \<Rightarrow> int option \<Rightarrow> int option \<Rightarrow> poll list \<Rightarrow> int option \<Rightarrow> poll list
     \<Rightarrow> py_error + tx_results \<Rightarrow> real \<Rightarrow> py_error + analysis run_output" where
  "run_full_test_blocktime is_connected block_number h1 polls1 h2 polls2 stress stress_duration =
     (if \<not> is_connected then Inr NotConnected
      else
        bind_err (banner_query block_number) (\<lambda>latest.
        bind_err (monitor_blocks_blocktime [] h1 polls1) (\<lambda>m1.
        bind_err (baseline_results (block_times m1)) (\<lambda>b.
        bind_err stress (\<lambda>res.
        bind_err (monitor_blocks_blocktime [] h2 polls2) (\<lambda>m2.
        bind_err (analyse_blocktime (block_times m2) res stress_duration) (\<lambda>a.
          Inr (Ran b a))))))))"

text \<open>
  \<^verbatim>\<open>run_full_test\<close> of \<^verbatim>\<open>stress_test_20k_tps.py\<close>, with the clock monitor; its banner
  also queries \<^verbatim>\<open>self.web3.eth.chain_id\<close>.
\<close>

definition run_full_test_20k ::
  "bool \<Rightarrow> int option \<Rightarrow> int option \<Rightarrow> int option \<Rightarrow> real \<Rightarrow> poll list \<Rightarrow> int option \<Rightarrow> real
     \<Rightarrow> poll list \<Rightarrow> py_error + tx_results \<Rightarrow> real \<Rightarrow> py_error + analysis_20k run_output" where
  "run_full_test_20k is_connected block_number chain_id h1 t1 polls1 h2 t2 polls2 stress
       stress_duration =
     (if \<not> is_connected then Inr NotConnected
      else
        bind_err (banner_query block_number) (\<lambda>latest.
        bind_err (banner_query chain_id) (\<lambda>chain.
        bind_err (monitor_blocks_20k [] h1 t1 polls1) (\<lambda>m1.
        bind_err (baseline_results (block_times m1)) (\<lambda>b.
        bind_err stress (\<lambda>res.
        bind_err (monitor_blocks_20k [] h2 t2 polls2) (\<lambda>m2.
        bind_err (analyse_20k (block_times m2) res stress_duration) (\<lambda>a.
          Inr (Ran b a)))))))))"

section \<open>Load generator\<close>

subsection \<open>Accounts, transactions, requests\<close>

record account =
  address :: string
  private_key :: string

record transaction =
  tx_from :: string
  tx_to :: string
  tx_value :: int
  gas :: int
  gasPrice :: int
  nonce :: nat
  chainId :: int

text \<open>
  The body of an \<^verbatim>\<open>eth_sendRawTransaction\<close> request: the signed transaction in
  hexadecimal and the request's \<^verbatim>\<open>id\<close>.
\<close>

record payload =
  params :: string
  request_id :: nat

text \<open>
  What \<^verbatim>\<open>asyncio.gather(..., return_exceptions=True)\<close> holds for one request, as the
  counting loops read it. \<open>Raised\<close> is an exception object. \<open>Unparseable\<close> is a response
  whose \<^verbatim>\<open>response.json()\<close> raises, or whose body cannot be tested for
  \<^verbatim>\<open>'result' in result\<close> (a number, a boolean, \<^verbatim>\<open>null\<close>). \<open>Json b\<close> is a parsed body,
  \<open>b\<close> telling whether \<^verbatim>\<open>'result' in result\<close>; when it is not, its \<^verbatim>\<open>'error'\<close> entry,
  if any, can be read. \<open>ErrorUnreadable\<close> is a parsed body without \<^verbatim>\<open>'result'\<close> for
  which \<^verbatim>\<open>'error' in result\<close> holds and \<^verbatim>\<open>result['error']\<close> raises: a JSON list or
  string that contains \<^verbatim>\<open>'error'\<close>.
\<close>

datatype response = Raised | Json bool | Unparseable | ErrorUnreadable

text \<open>
  The transfer built for one sender and one nonce: \<^verbatim>\<open>to_wei(0.0001, 'ether')\<close>,
  21000 gas at 10 gwei, chain 713714. \<open>to_addr\<close> stands for the random draw
  \<^verbatim>\<open>self.accounts[random.randint(0, len(self.accounts)-1)]['address']\<close>: the recipient
  drawn for the sender's transaction with the given nonce.
\<close>

definition make_tx :: "(string \<Rightarrow> nat \<Rightarrow> string) \<Rightarrow> account \<Rightarrow> nat \<Rightarrow> transaction" where
  "make_tx to_addr from_account n =
     \<lparr>tx_from = address from_account, tx_to = to_addr (address from_account) n,
      tx_value = 100000000000000, gas = 21000, gasPrice = 10000000000, nonce = n,
      chainId = 713714\<rparr>"

text \<open>
  \<open>sign tx key\<close> is \<^verbatim>\<open>Account.sign_transaction(tx, key).rawTransaction.hex()\<close>, \<open>None\<close>
  when it raises. The loop signs in order and stops at the first exception.
\<close>

fun sign_all ::
  "(transaction \<Rightarrow> string \<Rightarrow> string option) \<Rightarrow> string \<Rightarrow> transaction list
     \<Rightarrow> py_error + string list" where
  "sign_all sign key [] = Inr []"
| "sign_all sign key (tx # txs) =
     (case sign tx key of
        None \<Rightarrow> Inl SigningError
      | Some raw \<Rightarrow> bind_err (sign_all sign key txs) (\<lambda>raws. Inr (raw # raws)))"

definition signed_batch ::
  "(transaction \<Rightarrow> string \<Rightarrow> string option) \<Rightarrow> (string \<Rightarrow> nat \<Rightarrow> string) \<Rightarrow> account \<Rightarrow> nat \<Rightarrow> nat
     \<Rightarrow> py_error + string list" where
  "signed_batch sign to_addr from_account nonce_start batch_size =
     sign_all sign (private_key from_account)
       (map (\<lambda>i. make_tx to_addr from_account (nonce_start + i)) [0..<batch_size])"

subsection \<open>Counting the outcomes of a batch\<close>

text \<open>
  One turn of the loop \<^verbatim>\<open>for response in responses\<close> (\<^verbatim>\<open>stress_test_blocktime.py\<close>
  lines 149-160; \<^verbatim>\<open>stress_test_20k_tps.py\<close> lines 171-183).
\<close>

definition count_response :: "tx_results \<Rightarrow> response \<Rightarrow> tx_results" where
  "count_response res r =
     (case r of
        Raised \<Rightarrow> res\<lparr>failed := failed res + 1\<rparr>
      | Json has_result \<Rightarrow>
          if has_result then res\<lparr>sent := sent res + 1\<rparr> else res\<lparr>failed := failed res + 1\<rparr>
      | Unparseable \<Rightarrow> res\<lparr>failed := failed res + 1\<rparr>
      | ErrorUnreadable \<Rightarrow> res\<lparr>failed := failed res + 1\<rparr>)"

text \<open>
  The same turn in \<^verbatim>\<open>stress_test_blocktime_fixed.py\<close> (lines 159-173), which also
  counts the successes of the batch. After \<^verbatim>\<open>failed += 1\<close> it prints
  \<^verbatim>\<open>result['error']\<close> inside the \<^verbatim>\<open>try\<close>: when reading that raises, the bare
  \<^verbatim>\<open>except\<close> adds one to \<^verbatim>\<open>failed\<close> again.
\<close>

definition count_response_fixed :: "tx_results \<times> nat \<Rightarrow> response \<Rightarrow> tx_results \<times> nat" where
  "count_response_fixed state r =
     (case state of (res, success_count) \<Rightarrow>
        (case r of
           Raised \<Rightarrow> (res\<lparr>failed := failed res + 1\<rparr>, success_count)
         | Json has_result \<Rightarrow>
             if has_result then (res\<lparr>sent := sent res + 1\<rparr>, success_count + 1)
             else (res\<lparr>failed := failed res + 1\<rparr>, success_count)
         | Unparseable \<Rightarrow> (res\<lparr>failed := failed res + 1\<rparr>, success_count)
         | ErrorUnreadable \<Rightarrow> (res\<lparr>failed := failed res + 1 + 1\<rparr>, success_count)))"

text \<open>
  \<^verbatim>\<open>send_transaction_batch\<close> of \<^verbatim>\<open>stress_test_blocktime.py\<close>. \<open>post\<close> is the
  transport: what the gathered \<^verbatim>\<open>session.post\<close> of a request ends as. The requests
  are created unsent while the loop signs, so a signing exception sends none.
\<close>

definition send_transaction_batch ::
  "(transaction \<Rightarrow> string \<Rightarrow> string option) \<Rightarrow> (payload \<Rightarrow> response) \<Rightarrow> (string \<Rightarrow> nat \<Rightarrow> string)
     \<Rightarrow> tx_results \<Rightarrow> account \<Rightarrow> nat \<Rightarrow> nat \<Rightarrow> py_error + tx_results" where
  "send_transaction_batch sign post to_addr res from_account nonce_start batch_size =
     bind_err (signed_batch sign to_addr from_account nonce_start batch_size) (\<lambda>raws.
       (let tasks = map (\<lambda>(i, raw). \<lparr>params = raw, request_id = i\<rparr>) (enumerate 0 raws);
            responses = map post tasks
        in Inr (foldl count_response res responses)))"

text \<open>
  \<^verbatim>\<open>send_transaction_batch\<close> of \<^verbatim>\<open>stress_test_blocktime_fixed.py\<close>: the same
  requests, counted by its own loop; the second component is \<^verbatim>\<open>success_count\<close>.
\<close>

definition send_transaction_batch_fixed ::
  "(transaction \<Rightarrow> string \<Rightarrow> string option) \<Rightarrow> (payload \<Rightarrow> response) \<Rightarrow> (string \<Rightarrow> nat \<Rightarrow> string)
     \<Rightarrow> tx_results \<Rightarrow> account \<Rightarrow> nat \<Rightarrow> nat \<Rightarrow> py_error + (tx_results \<times> nat)" where
  "send_transaction_batch_fixed sign post to_addr res from_account nonce_start batch_size =
     bind_err (signed_batch sign to_addr from_account nonce_start batch_size) (\<lambda>raws.
       (let tasks = map (\<lambda>(i, raw). \<lparr>params = raw, request_id = i\<rparr>) (enumerate 0 raws);
            responses = map post tasks
        in Inr (foldl count_response_fixed (res, 0) responses)))"

text \<open>
  \<^verbatim>\<open>send_transaction_batch_optimized\<close> of \<^verbatim>\<open>stress_test_20k_tps.py\<close>: all
  transactions are signed first, then the requests are created by sub-batches of 20,
  \<^verbatim>\<open>for i in range(0, len(transactions), sub_batch_size)\<close>, with \<^verbatim>\<open>id = i + j\<close>.
  The second component is \<^verbatim>\<open>success_count\<close>.
\<close>

definition sub_batch_tasks :: "string list \<Rightarrow> payload list" where
  "sub_batch_tasks transactions =
     concat
       (map (\<lambda>i. map (\<lambda>(j, tx_hex). \<lparr>params = tx_hex, request_id = i + j\<rparr>)
                    (enumerate 0 (take 20 (drop i transactions))))
            (map (\<lambda>k. k * 20) [0..<(length transactions + 19) div 20]))"

definition send_transaction_batch_optimized ::
  "(transaction \<Rightarrow> string \<Rightarrow> string option) \<Rightarrow> (payload \<Rightarrow> response) \<Rightarrow> (string \<Rightarrow> nat \<Rightarrow> string)
     \<Rightarrow> tx_results \<Rightarrow> account \<Rightarrow> nat \<Rightarrow> nat \<Rightarrow> py_error + (tx_results \<times> nat)" where
  "send_transaction_batch_optimized sign post to_addr res from_account nonce_start batch_size =
     bind_err (signed_batch sign to_addr from_account nonce_start batch_size) (\<lambda>transactions.
       (let responses = map post (sub_batch_tasks transactions)
        in Inr (foldl count_response res responses,
                length (filter (\<lambda>r. r = Json True) responses))))"

subsection \<open>Reserving nonces and scheduling a batch\<close>

text \<open>
  The \<^verbatim>\<open>for account in sending_accounts\<close> loop of the scheduler
  (\<^verbatim>\<open>stress_test_blocktime_fixed.py\<close> lines 211-220, \<^verbatim>\<open>stress_test_20k_tps.py\<close> lines
  240-249): each turn reads \<^verbatim>\<open>nonce_counters[account['address']]\<close> as the task's
  \<^verbatim>\<open>nonce_start\<close> and adds the task's size to the counter. No \<^verbatim>\<open>await\<close> stands between
  the read and the write, so the turns run one after the other. A task is the sender,
  its first nonce and its size; a missing key raises \<^verbatim>\<open>KeyError\<close>.
\<close>

type_synonym task = "account \<times> nat \<times> nat"

fun reserve_batch ::
  "(string \<rightharpoonup> nat) \<Rightarrow> account list \<Rightarrow> nat \<Rightarrow> py_error + (task list \<times> (string \<rightharpoonup> nat))" where
  "reserve_batch nc [] count = Inr ([], nc)"
| "reserve_batch nc (acc # accs) count =
     (case nc (address acc) of
        None \<Rightarrow> Inl KeyError
      | Some n \<Rightarrow>
          bind_err (reserve_batch (nc(address acc \<mapsto> n + count)) accs count)
            (\<lambda>(tasks, nc'). Inr ((acc, n, count) # tasks, nc')))"

text \<open>
  Reading a trace of tasks for one address: the nonces its tasks were given, task after
  task in the order of creation, and the number of nonces its tasks were given.
\<close>

definition reserved_nonces :: "string \<Rightarrow> task list \<Rightarrow> nat list" where
  "reserved_nonces a tasks =
     concat (map (\<lambda>(acc, nonce_start, count). [nonce_start..<nonce_start + count])
               (filter (\<lambda>t. address (fst t) = a) tasks))"

definition reserved_count :: "string \<Rightarrow> task list \<Rightarrow> nat" where
  "reserved_count a tasks =
     sum_list (map (\<lambda>(acc, nonce_start, count). count)
                 (filter (\<lambda>t. address (fst t) = a) tasks))"

text \<open>
  \<^verbatim>\<open>await asyncio.gather(*tasks)\<close>: the tasks only add to the two counters, so the order
  in which their turns interleave does not change the sums; the model runs them in
  order. An exception of a task is re-raised by \<^verbatim>\<open>gather\<close>.
\<close>

fun run_tasks ::
  "(transaction \<Rightarrow> string \<Rightarrow> string option) \<Rightarrow> (payload \<Rightarrow> response) \<Rightarrow> (string \<Rightarrow> nat \<Rightarrow> string)
     \<Rightarrow> tx_results \<Rightarrow> task list \<Rightarrow> py_error + tx_results" where
  "run_tasks sign post to_addr res [] = Inr res"
| "run_tasks sign post to_addr res ((acc, n, count) # ts) =
     bind_err (send_transaction_batch sign post to_addr res acc n count)
       (\<lambda>res'. run_tasks sign post to_addr res' ts)"

fun run_tasks_fixed ::
  "(transaction \<Rightarrow> string \<Rightarrow> string option) \<Rightarrow> (payload \<Rightarrow> response) \<Rightarrow> (string \<Rightarrow> nat \<Rightarrow> string)
     \<Rightarrow> tx_results \<Rightarrow> task list \<Rightarrow> py_error + tx_results" where
  "run_tasks_fixed sign post to_addr res [] = Inr res"
| "run_tasks_fixed sign post to_addr res ((acc, n, count) # ts) =
     bind_err (send_transaction_batch_fixed sign post to_addr res acc n count)
       (\<lambda>(res', success_count). run_tasks_fixed sign post to_addr res' ts)"

fun run_tasks_optimized ::
  "(transaction \<Rightarrow> string \<Rightarrow> string option) \<Rightarrow> (payload \<Rightarrow> response) \<Rightarrow> (string \<Rightarrow> nat \<Rightarrow> string)
     \<Rightarrow> tx_results \<Rightarrow> task list \<Rightarrow> py_error + tx_results" where
  "run_tasks_optimized sign post to_addr res [] = Inr res"
| "run_tasks_optimized sign post to_addr res ((acc, n, count) # ts) =
     bind_err (send_transaction_batch_optimized sign post to_addr res acc n count)
       (\<lambda>(res', success_count). run_tasks_optimized sign post to_addr res' ts)"

text \<open>
  The state of a scheduling loop. \<open>dispatched\<close> and \<open>sleeps\<close> are its trace: the tasks
  created so far, in order, and per iteration the argument of its \<^verbatim>\<open>asyncio.sleep\<close>
  call (\<open>None\<close> when the iteration does not sleep).
\<close>

record load_state =
  nonce_counters :: "string \<rightharpoonup> nat"
  results :: tx_results
  dispatched :: "task list"
  sleeps :: "real option list"

record load_state_20k = load_state +
  last_batch_time :: real

text \<open>
  One iteration of the \<^verbatim>\<open>while\<close> loop of \<^verbatim>\<open>stress_test_transactions\<close> in
  \<^verbatim>\<open>stress_test_blocktime.py\<close> (lines 188-206). \<open>sending_accounts\<close> is the draw
  \<^verbatim>\<open>random.sample(self.accounts, min(50, len(self.accounts)))\<close>; the size
  \<^verbatim>\<open>transactions_per_batch // len(sending_accounts)\<close> is computed inside the loop over
  the senders, so with no sender nothing is divided.
\<close>

definition stress_tick ::
  "(transaction \<Rightarrow> string \<Rightarrow> string option) \<Rightarrow> (payload \<Rightarrow> response) \<Rightarrow> (string \<Rightarrow> nat \<Rightarrow> string)
     \<Rightarrow> real \<Rightarrow> load_state \<Rightarrow> account list \<Rightarrow> py_error + load_state" where
  "stress_tick sign post to_addr batch_delay st sending_accounts =
     bind_err
       (reserve_batch (nonce_counters st) sending_accounts
          (1000 div length sending_accounts))
       (\<lambda>(tasks, nc).
          bind_err (run_tasks sign post to_addr (results st) tasks) (\<lambda>res.
            Inr (st\<lparr>nonce_counters := nc, results := res,
                    dispatched := dispatched st @ tasks,
                    sleeps := sleeps st @ [Some batch_delay]\<rparr>)))"

fun stress_loop ::
  "(transaction \<Rightarrow> string \<Rightarrow> string option) \<Rightarrow> (payload \<Rightarrow> response) \<Rightarrow> (string \<Rightarrow> nat \<Rightarrow> string)
     \<Rightarrow> real \<Rightarrow> load_state \<Rightarrow> account list list \<Rightarrow> py_error + load_state" where
  "stress_loop sign post to_addr batch_delay st [] = Inr st"
| "stress_loop sign post to_addr batch_delay st (tk # tks) =
     bind_err (stress_tick sign post to_addr batch_delay st tk)
       (\<lambda>st'. stress_loop sign post to_addr batch_delay st' tks)"

text \<open>
  The same iteration and loop in \<^verbatim>\<open>stress_test_blocktime_fixed.py\<close> (lines 207-225),
  whose tasks are its own \<^verbatim>\<open>send_transaction_batch\<close>.
\<close>

definition stress_tick_fixed ::
  "(transaction \<Rightarrow> string \<Rightarrow> string option) \<Rightarrow> (payload \<Rightarrow> response) \<Rightarrow> (string \<Rightarrow> nat \<Rightarrow> string)
     \<Rightarrow> real \<Rightarrow> load_state \<Rightarrow> account list \<Rightarrow> py_error + load_state" where
  "stress_tick_fixed sign post to_addr batch_delay st sending_accounts =
     bind_err
       (reserve_batch (nonce_counters st) sending_accounts
          (1000 div length sending_accounts))
       (\<lambda>(tasks, nc).
          bind_err (run_tasks_fixed sign post to_addr (results st) tasks) (\<lambda>res.
            Inr (st\<lparr>nonce_counters := nc, results := res,
                    dispatched := dispatched st @ tasks,
                    sleeps := sleeps st @ [Some batch_delay]\<rparr>)))"

fun stress_loop_fixed ::
  "(transaction \<Rightarrow> string \<Rightarrow> string option) \<Rightarrow> (payload \<Rightarrow> response) \<Rightarrow> (string \<Rightarrow> nat \<Rightarrow> string)
     \<Rightarrow> real \<Rightarrow> load_state \<Rightarrow> account list list \<Rightarrow> py_error + load_state" where
  "stress_loop_fixed sign post to_addr batch_delay st [] = Inr st"
| "stress_loop_fixed sign post to_addr batch_delay st (tk # tks) =
     bind_err (stress_tick_fixed sign post to_addr batch_delay st tk)
       (\<lambda>st'. stress_loop_fixed sign post to_addr batch_delay st' tks)"

text \<open>
  \<^verbatim>\<open>{acc['address']: 0 for acc in self.accounts}\<close> of \<^verbatim>\<open>stress_test_blocktime.py\<close>, and
  the loop over \<^verbatim>\<open>self.web3.eth.get_transaction_count\<close> of the two other scripts
  (\<open>None\<close> when the query raises).
\<close>

definition zero_nonces :: "account list \<Rightarrow> (string \<rightharpoonup> nat)" where
  "zero_nonces accounts = fold (\<lambda>acc nc. nc(address acc \<mapsto> 0)) accounts Map.empty"

fun seed_nonces ::
  "(string \<Rightarrow> nat option) \<Rightarrow> (string \<rightharpoonup> nat) \<Rightarrow> account list \<Rightarrow> py_error + (string \<rightharpoonup> nat)" where
  "seed_nonces get_transaction_count nc [] = Inr nc"
| "seed_nonces get_transaction_count nc (acc # accs) =
     (case get_transaction_count (address acc) of
        None \<Rightarrow> Inl RpcError
      | Some n \<Rightarrow> seed_nonces get_transaction_count (nc(address acc \<mapsto> n)) accs)"

text \<open>
  \<^verbatim>\<open>stress_test_transactions\<close> of \<^verbatim>\<open>stress_test_blocktime.py\<close> and of
  \<^verbatim>\<open>stress_test_blocktime_fixed.py\<close>, after the accounts are loaded. \<open>res\<close> is
  \<^verbatim>\<open>self.tx_results\<close> on entry, \<open>ticks\<close> the draws of the iterations before the deadline.
\<close>

definition stress_test_transactions_blocktime ::
  "(transaction \<Rightarrow> string \<Rightarrow> string option) \<Rightarrow> (payload \<Rightarrow> response) \<Rightarrow> (string \<Rightarrow> nat \<Rightarrow> string)
     \<Rightarrow> account list \<Rightarrow> real \<Rightarrow> tx_results \<Rightarrow> account list list \<Rightarrow> py_error + load_state" where
  "stress_test_transactions_blocktime sign post to_addr accounts tps_target res ticks =
     bind_err (py_div 1000 tps_target) (\<lambda>batch_delay.
       stress_loop sign post to_addr batch_delay
         \<lparr>nonce_counters = zero_nonces accounts, results = res, dispatched = [],
          sleeps = []\<rparr> ticks)"

definition stress_test_transactions_fixed ::
  "(transaction \<Rightarrow> string \<Rightarrow> string option) \<Rightarrow> (payload \<Rightarrow> response) \<Rightarrow> (string \<Rightarrow> nat \<Rightarrow> string)
     \<Rightarrow> (string \<Rightarrow> nat option) \<Rightarrow> account list \<Rightarrow> real \<Rightarrow> tx_results \<Rightarrow> account list list
     \<Rightarrow> py_error + load_state" where
  "stress_test_transactions_fixed sign post to_addr get_transaction_count accounts tps_target
       res ticks =
     bind_err (seed_nonces get_transaction_count Map.empty accounts) (\<lambda>nc.
     bind_err (py_div 1000 tps_target) (\<lambda>batch_delay.
       stress_loop_fixed sign post to_addr batch_delay
         \<lparr>nonce_counters = nc, results = res, dispatched = [], sleeps = []\<rparr> ticks))"

text \<open>
  One iteration of the \<^verbatim>\<open>while\<close> loop of \<^verbatim>\<open>stress_test_transactions_optimized\<close>
  (\<^verbatim>\<open>stress_test_20k_tps.py\<close> lines 228-254). \<open>current_time\<close> is \<^verbatim>\<open>time.time()\<close> at
  the top of the iteration, \<open>sending_accounts\<close> the draw
  \<^verbatim>\<open>random.sample(self.accounts, concurrent_senders)\<close>, \<open>time_after_gather\<close> the
  \<^verbatim>\<open>time.time()\<close> stored in \<^verbatim>\<open>last_batch_time\<close> once the batch has been gathered.
\<close>

record tick =
  current_time :: real
  sending_accounts :: "account list"
  time_after_gather :: real

definition stress_tick_20k ::
  "(transaction \<Rightarrow> string \<Rightarrow> string option) \<Rightarrow> (payload \<Rightarrow> response) \<Rightarrow> (string \<Rightarrow> nat \<Rightarrow> string)
     \<Rightarrow> real \<Rightarrow> nat \<Rightarrow> load_state_20k \<Rightarrow> tick \<Rightarrow> py_error + load_state_20k" where
  "stress_tick_20k sign post to_addr batch_interval txs_per_account st tk =
     (let time_since_last_batch = current_time tk - last_batch_time st;
          nap = (if time_since_last_batch < batch_interval
                 then Some (batch_interval - time_since_last_batch) else None)
      in bind_err
           (reserve_batch (nonce_counters st) (sending_accounts tk) txs_per_account)
           (\<lambda>(tasks, nc).
              bind_err (run_tasks_optimized sign post to_addr (results st) tasks) (\<lambda>res.
                Inr (st\<lparr>nonce_counters := nc, results := res,
                        dispatched := dispatched st @ tasks,
                        sleeps := sleeps st @ [nap],
                        last_batch_time := time_after_gather tk\<rparr>))))"

fun stress_loop_20k ::
  "(transaction \<Rightarrow> string \<Rightarrow> string option) \<Rightarrow> (payload \<Rightarrow> response) \<Rightarrow> (string \<Rightarrow> nat \<Rightarrow> string)
     \<Rightarrow> real \<Rightarrow> nat \<Rightarrow> load_state_20k \<Rightarrow> tick list \<Rightarrow> py_error + load_state_20k" where
  "stress_loop_20k sign post to_addr batch_interval txs_per_account st [] = Inr st"
| "stress_loop_20k sign post to_addr batch_interval txs_per_account st (tk # tks) =
     bind_err (stress_tick_20k sign post to_addr batch_interval txs_per_account st tk)
       (\<lambda>st'. stress_loop_20k sign post to_addr batch_interval txs_per_account st' tks)"

text \<open>
  \<^verbatim>\<open>stress_test_transactions_optimized\<close>, after the accounts are loaded (lines 205-254).
  \<open>start\<close> is the \<^verbatim>\<open>time.time()\<close> that initialises \<^verbatim>\<open>last_batch_time\<close>.
\<close>

definition stress_test_transactions_optimized ::
  "(transaction \<Rightarrow> string \<Rightarrow> string option) \<Rightarrow> (payload \<Rightarrow> response) \<Rightarrow> (string \<Rightarrow> nat \<Rightarrow> string)
     \<Rightarrow> (string \<Rightarrow> nat option) \<Rightarrow> account list \<Rightarrow> real \<Rightarrow> tx_results \<Rightarrow> real \<Rightarrow> tick list
     \<Rightarrow> py_error + load_state_20k" where
  "stress_test_transactions_optimized sign post to_addr get_transaction_count accounts
       tps_target res start ticks =
     bind_err (seed_nonces get_transaction_count Map.empty accounts) (\<lambda>nc.
     bind_err (py_div 2000 tps_target) (\<lambda>batch_interval.
       (let concurrent_senders = min 100 (length accounts)
        in bind_err (py_floordiv 2000 concurrent_senders) (\<lambda>txs_per_account.
             stress_loop_20k sign post to_addr batch_interval txs_per_account
               \<lparr>nonce_counters = nc, results = res, dispatched = [], sleeps = [],
                last_batch_time = start\<rparr> ticks))))"

subsection \<open>The rate control the specification describes\<close>

text \<open>
  For comparison with the two loops above, the sleep the specification's words give
  after a batch whose construction and dispatch took \<open>took\<close> seconds: the remainder of
  the interval when the batch was faster than the interval, none otherwise.
\<close>

definition closed_loop_sleep_spec :: "real \<Rightarrow> real \<Rightarrow> real option" where
  "closed_loop_sleep_spec interval took =
     (if took < interval then Some (interval - took) else None)"

section \<open>Properties of the load generator\<close>

subsection \<open>Outcome counters\<close>

lemma count_response_cases:
  "count_response res r =
     (if r = Json True then res\<lparr>sent := sent res + 1\<rparr> else res\<lparr>failed := failed res + 1\<rparr>)"
  by (cases r) (auto simp: count_response_def)

lemma foldl_count_response:
  "foldl count_response res rs =
     res\<lparr>sent := sent res + length (filter (\<lambda>r. r = Json True) rs),
         failed := failed res + length (filter (\<lambda>r. r \<noteq> Json True) rs)\<rparr>"
  by (induction rs arbitrary: res) (simp_all add: count_response_cases)

lemma sign_all_length: "sign_all sign key txs = Inr raws \<Longrightarrow> length raws = length txs"
  by (induction txs arbitrary: raws) (auto simp: bind_err_def split: option.splits sum.splits)

lemma sign_all_total:
  "list_all (\<lambda>tx. sign tx key \<noteq> None) txs \<Longrightarrow> \<exists>raws. sign_all sign key txs = Inr raws"
  by (induction txs) (auto simp: bind_err_def split: option.splits sum.splits)

lemma concat_chunks_take:
  "concat (map (\<lambda>i. take m (drop i xs)) (map (\<lambda>k. k * m) [0..<c])) = take (c * m) xs"
proof (induction c)
  case 0
  then show ?case by simp
next
  case (Suc c)
  have "take (c * m) xs @ take m (drop (c * m) xs) = take (c * m + m) xs"
    by (simp add: take_add)
  with Suc show ?case by (simp add: add.commute)
qed

lemma enumerate_shift:
  "map (\<lambda>(j, x). f (i + j) x) (enumerate m xs) = map (\<lambda>(k, x). f k x) (enumerate (i + m) xs)"
  by (induction xs arbitrary: m) simp_all

lemma take_enumerate: "take k (enumerate n xs) = enumerate n (take k xs)"
proof (induction xs arbitrary: n k)
  case Nil
  then show ?case by simp
next
  case (Cons x xs)
  then show ?case by (cases k) simp_all
qed

lemma drop_enumerate: "drop i (enumerate n xs) = enumerate (n + i) (drop i xs)"
proof (induction xs arbitrary: n i)
  case Nil
  then show ?case by simp
next
  case (Cons x xs)
  then show ?case by (cases i) simp_all
qed

lemma sub_batch_tasks_enumerate:
  "sub_batch_tasks txs = map (\<lambda>(i, raw). \<lparr>params = raw, request_id = i\<rparr>) (enumerate 0 txs)"
proof -
  let ?mk = "\<lambda>(i, raw). \<lparr>params = raw, request_id = i\<rparr>"
  let ?c = "(length txs + 19) div 20"
  have chunk: "map (\<lambda>(j, tx_hex). \<lparr>params = tx_hex, request_id = i + j\<rparr>)
                 (enumerate 0 (take 20 (drop i txs)))
               = map ?mk (take 20 (drop i (enumerate 0 txs)))" for i
  proof -
    have "map (\<lambda>(j, tx_hex). \<lparr>params = tx_hex, request_id = i + j\<rparr>)
            (enumerate 0 (take 20 (drop i txs)))
          = map ?mk (enumerate (i + 0) (take 20 (drop i txs)))"
      using enumerate_shift [of "\<lambda>k tx_hex. \<lparr>params = tx_hex, request_id = k\<rparr>" i 0
          "take 20 (drop i txs)"] by simp
    also have "enumerate (i + 0) (take 20 (drop i txs)) = take 20 (drop i (enumerate 0 txs))"
      by (simp add: take_enumerate drop_enumerate)
    finally show ?thesis .
  qed
  have "sub_batch_tasks txs
          = concat (map (\<lambda>i. map ?mk (take 20 (drop i (enumerate 0 txs))))
                      (map (\<lambda>k. k * 20) [0..<?c]))"
    unfolding sub_batch_tasks_def by (simp only: chunk)
  also have "\<dots> = map ?mk (concat (map (\<lambda>i. take 20 (drop i (enumerate 0 txs)))
                      (map (\<lambda>k. k * 20) [0..<?c])))"
    by (simp add: map_concat comp_def)
  also have "\<dots> = map ?mk (take (?c * 20) (enumerate 0 txs))"
    by (simp only: concat_chunks_take)
  also have "\<dots> = map ?mk (enumerate 0 txs)" by simp
  finally show ?thesis .
qed

lemma signed_batch_ok:
  assumes "\<forall>i<batch_size. sign (make_tx to_addr from_account (nonce_start + i)) (private_key from_account) \<noteq> None"
  shows "\<exists>raws. signed_batch sign to_addr from_account nonce_start batch_size = Inr raws \<and> length raws = batch_size"
proof -
  let ?txs = "map (\<lambda>i. make_tx to_addr from_account (nonce_start + i)) [0..<batch_size]"
  have "list_all (\<lambda>tx. sign tx (private_key from_account) \<noteq> None) ?txs"
    using assms by (simp add: list_all_iff)
  then obtain raws where r: "sign_all sign (private_key from_account) ?txs = Inr raws"
    using sign_all_total by blast
  then have "length raws = batch_size" using sign_all_length by fastforce
  with r show ?thesis by (simp add: signed_batch_def)
qed

text \<open>
  Claim C10. A batch of size \<open>batch_size\<close> whose transactions are all signed is
  submitted as exactly \<open>batch_size\<close> requests, one per signed transaction in order, by
  \<^verbatim>\<open>send_transaction_batch\<close> and by \<^verbatim>\<open>send_transaction_batch_optimized\<close> alike (the
  sub-batches of 20 lose and repeat nothing). Each response adds one to exactly one
  counter: to \<open>sent\<close> when it parses and holds a \<^verbatim>\<open>'result'\<close>, to \<open>failed\<close> otherwise. So
  the batch leaves the counters at their old values plus the number of accepted
  responses in \<open>sent\<close> and the number of the others in \<open>failed\<close>, the two numbers adding
  up to \<open>batch_size\<close>; nothing else changes.
\<close>

theorem batch_outcomes_counted_once:
  assumes "\<forall>i<batch_size. sign (make_tx to_addr from_account (nonce_start + i)) (private_key from_account) \<noteq> None"
  shows "\<exists>raws responses accepted refused.
           signed_batch sign to_addr from_account nonce_start batch_size = Inr raws
         \<and> responses = map post (map (\<lambda>(i, raw). \<lparr>params = raw, request_id = i\<rparr>) (enumerate 0 raws))
         \<and> accepted = length (filter (\<lambda>r. r = Json True) responses)
         \<and> refused = length (filter (\<lambda>r. r \<noteq> Json True) responses)
         \<and> length responses = batch_size \<and> accepted + refused = batch_size
         \<and> send_transaction_batch sign post to_addr res from_account nonce_start batch_size
             = Inr (res\<lparr>sent := sent res + accepted, failed := failed res + refused\<rparr>)
         \<and> send_transaction_batch_optimized sign post to_addr res from_account nonce_start batch_size
             = Inr (res\<lparr>sent := sent res + accepted, failed := failed res + refused\<rparr>, accepted)
         \<and> count_response res r =
              (if r = Json True then res\<lparr>sent := sent res + 1\<rparr> else res\<lparr>failed := failed res + 1\<rparr>)"
proof -
  obtain raws where r: "signed_batch sign to_addr from_account nonce_start batch_size = Inr raws"
    and l: "length raws = batch_size"
    using signed_batch_ok [of batch_size sign to_addr from_account nonce_start] assms by blast
  let ?rs = "map post (map (\<lambda>(i, raw). \<lparr>params = raw, request_id = i\<rparr>) (enumerate 0 raws))"
  let ?a = "length (filter (\<lambda>r. r = Json True) ?rs)"
  let ?f = "length (filter (\<lambda>r. r \<noteq> Json True) ?rs)"
  have n: "length ?rs = batch_size" using l by simp
  have s: "?a + ?f = batch_size"
    using sum_length_filter_compl [of "\<lambda>r. r = Json True" ?rs] n by simp
  have a: "send_transaction_batch sign post to_addr res from_account nonce_start batch_size
             = Inr (res\<lparr>sent := sent res + ?a, failed := failed res + ?f\<rparr>)"
    using r by (simp add: send_transaction_batch_def bind_err_def Let_def foldl_count_response
        comp_assoc)
  have b: "send_transaction_batch_optimized sign post to_addr res from_account nonce_start batch_size
             = Inr (res\<lparr>sent := sent res + ?a, failed := failed res + ?f\<rparr>, ?a)"
    using r by (simp add: send_transaction_batch_optimized_def bind_err_def Let_def
        foldl_count_response sub_batch_tasks_enumerate comp_assoc)
  from r n s a b count_response_cases [of res r] show ?thesis by blast
qed

theorem batch_outcomes_counted_once_witness:
  "send_transaction_batch (\<lambda>tx key. Some ''f86c'')
      (\<lambda>p. if request_id p = 0 then Json True else if request_id p = 1 then Json False else Raised)
      (\<lambda>a n. ''0xB'') \<lparr>sent = 4, confirmed = 0, failed = 1, pending = 0\<rparr>
      \<lparr>address = ''0xA'', private_key = ''k''\<rparr> 7 3
     = Inr \<lparr>sent = 5, confirmed = 0, failed = 3, pending = 0\<rparr>
   \<and> send_transaction_batch_optimized (\<lambda>tx key. Some ''f86c'')
      (\<lambda>p. if request_id p = 0 then Json True else if request_id p = 1 then Json False else Raised)
      (\<lambda>a n. ''0xB'') \<lparr>sent = 4, confirmed = 0, failed = 1, pending = 0\<rparr>
      \<lparr>address = ''0xA'', private_key = ''k''\<rparr> 7 3
     = Inr (\<lparr>sent = 5, confirmed = 0, failed = 3, pending = 0\<rparr>, 1)"
proof -
  let ?sign = "\<lambda>(tx::transaction) (key::string). Some ''f86c''"
  let ?post = "\<lambda>p. if request_id p = 0 then Json True else if request_id p = 1 then Json False
                    else Raised"
  let ?acc = "\<lparr>address = ''0xA'', private_key = ''k''\<rparr>"
  let ?res = "\<lparr>sent = 4, confirmed = 0, failed = 1, pending = 0\<rparr>"
  have h: "\<forall>i<(3::nat). ?sign (make_tx (\<lambda>a n. ''0xB'') ?acc (7 + i)) (private_key ?acc) \<noteq> None"
    by simp
  have sb: "signed_batch ?sign (\<lambda>a n. ''0xB'') ?acc 7 3 = Inr [''f86c'', ''f86c'', ''f86c'']"
    by (simp add: signed_batch_def bind_err_def upt_conv_Cons)
  from batch_outcomes_counted_once [of 3 ?sign "\<lambda>a n. ''0xB''" ?acc 7, OF h, of ?post ?res Raised]
  show ?thesis by (simp add: sb)
qed

text \<open>
  The counting loop of \<^verbatim>\<open>stress_test_blocktime_fixed.py\<close> is not covered by the
  statement above: a parsed body without \<^verbatim>\<open>'result'\<close> whose \<^verbatim>\<open>'error'\<close> entry cannot
  be read is counted as failed twice, once before the \<^verbatim>\<open>print\<close> that raises and once by
  the \<^verbatim>\<open>except\<close> clause.
\<close>

lemma count_response_fixed_unreadable_error:
  "count_response_fixed (res, k) ErrorUnreadable = (res\<lparr>failed := failed res + 2\<rparr>, k)"
  "count_response res ErrorUnreadable = res\<lparr>failed := failed res + 1\<rparr>"
  by (simp_all add: count_response_fixed_def count_response_def)

subsection \<open>Nonce reservation\<close>

lemma reserved_append:
  "reserved_nonces a (xs @ ys) = reserved_nonces a xs @ reserved_nonces a ys"
  "reserved_count a (xs @ ys) = reserved_count a xs + reserved_count a ys"
  by (simp_all add: reserved_nonces_def reserved_count_def)

lemma reserve_batch_ranges:
  assumes "reserve_batch nc accs c = Inr (tasks, nc')" and "nc a = Some n0"
  shows "\<exists>n1. nc' a = Some n1 \<and> n1 = n0 + reserved_count a tasks
           \<and> reserved_nonces a tasks = [n0..<n1]"
  using assms
proof (induction accs arbitrary: nc tasks n0)
  case Nil
  then show ?case by (simp add: reserved_nonces_def reserved_count_def)
next
  case (Cons acc accs)
  from Cons.prems(1) obtain n where n: "nc (address acc) = Some n"
    by (auto split: option.splits)
  from Cons.prems(1) n obtain rest where
    rest: "reserve_batch (nc(address acc \<mapsto> n + c)) accs c = Inr (rest, nc')"
    and tasks: "tasks = (acc, n, c) # rest"
    by (auto simp: bind_err_def split: sum.splits prod.splits)
  show ?case
  proof (cases "address acc = a")
    case True
    with n Cons.prems(2) have "n = n0" by simp
    have "(nc(address acc \<mapsto> n + c)) a = Some (n0 + c)" using True \<open>n = n0\<close> by simp
    from Cons.IH [OF rest this] obtain n1 where
      1: "nc' a = Some n1"
      and 2: "n1 = n0 + c + reserved_count a rest"
      and 3: "reserved_nonces a rest = [n0 + c..<n1]"
      by blast
    have "[n0..<n0 + c] @ [n0 + c..<n1] = [n0..<n1]"
      using 2 by (metis le_add1 upt_add_eq_append add.assoc)
    with 1 2 3 True tasks \<open>n = n0\<close> show ?thesis
      by (simp add: reserved_nonces_def reserved_count_def)
  next
    case False
    then have "(nc(address acc \<mapsto> n + c)) a = Some n0" using Cons.prems(2) by simp
    from Cons.IH [OF rest this] False tasks show ?thesis
      by (simp add: reserved_nonces_def reserved_count_def)
  qed
qed

lemma reserve_batch_total:
  assumes "list_all (\<lambda>acc. address acc \<in> dom nc) accs"
  shows "\<exists>tasks nc'. reserve_batch nc accs c = Inr (tasks, nc') \<and> dom nc' = dom nc"
  using assms
proof (induction accs arbitrary: nc)
  case Nil
  then show ?case by simp
next
  case (Cons acc accs)
  then obtain n where n: "nc (address acc) = Some n" by auto
  have d: "dom (nc(address acc \<mapsto> n + c)) = dom nc" using n by auto
  with Cons.prems have "list_all (\<lambda>acc'. address acc' \<in> dom (nc(address acc \<mapsto> n + c))) accs"
    by simp
  from Cons.IH [OF this] obtain tasks nc' where
    "reserve_batch (nc(address acc \<mapsto> n + c)) accs c = Inr (tasks, nc')"
    "dom nc' = dom (nc(address acc \<mapsto> n + c))" by blast
  with d n show ?case by (simp add: bind_err_def)
qed

lemma stress_tick_ranges:
  assumes "stress_tick sign post to_addr d st tk = Inr st'" and "nonce_counters st a = Some n0"
  shows "\<exists>n1 new. dispatched st' = dispatched st @ new \<and> nonce_counters st' a = Some n1
           \<and> n1 = n0 + reserved_count a new \<and> reserved_nonces a new = [n0..<n1]"
proof -
  from assms(1) obtain tasks nc res where
    rb: "reserve_batch (nonce_counters st) tk (1000 div length tk) = Inr (tasks, nc)"
    and st': "st' = st\<lparr>nonce_counters := nc, results := res,
                    dispatched := dispatched st @ tasks,
                    sleeps := sleeps st @ [Some d]\<rparr>"
    by (auto simp: stress_tick_def bind_err_def split: sum.splits prod.splits)
  from reserve_batch_ranges [OF rb assms(2)] st' show ?thesis by auto
qed

lemma stress_tick_fixed_ranges:
  assumes "stress_tick_fixed sign post to_addr d st tk = Inr st'" and "nonce_counters st a = Some n0"
  shows "\<exists>n1 new. dispatched st' = dispatched st @ new \<and> nonce_counters st' a = Some n1
           \<and> n1 = n0 + reserved_count a new \<and> reserved_nonces a new = [n0..<n1]"
proof -
  from assms(1) obtain tasks nc res where
    rb: "reserve_batch (nonce_counters st) tk (1000 div length tk) = Inr (tasks, nc)"
    and st': "st' = st\<lparr>nonce_counters := nc, results := res,
                    dispatched := dispatched st @ tasks,
                    sleeps := sleeps st @ [Some d]\<rparr>"
    by (auto simp: stress_tick_fixed_def bind_err_def split: sum.splits prod.splits)
  from reserve_batch_ranges [OF rb assms(2)] st' show ?thesis by auto
qed

lemma stress_tick_20k_ranges:
  assumes "stress_tick_20k sign post to_addr iv c st tk = Inr st'"
    and "nonce_counters st a = Some n0"
  shows "\<exists>n1 new. dispatched st' = dispatched st @ new \<and> nonce_counters st' a = Some n1
           \<and> n1 = n0 + reserved_count a new \<and> reserved_nonces a new = [n0..<n1]"
proof -
  from assms(1) obtain tasks nc res nap where
    rb: "reserve_batch (nonce_counters st) (sending_accounts tk) c = Inr (tasks, nc)"
    and st': "st' = st\<lparr>nonce_counters := nc, results := res,
                    dispatched := dispatched st @ tasks,
                    sleeps := sleeps st @ [nap],
                    last_batch_time := time_after_gather tk\<rparr>"
    by (auto simp: stress_tick_20k_def bind_err_def Let_def split: sum.splits prod.splits)
  from reserve_batch_ranges [OF rb assms(2)] st' show ?thesis by auto
qed

lemma upt_chain: "n0 \<le> n1 \<Longrightarrow> n1 \<le> n2 \<Longrightarrow> [n0..<n1] @ [n1..<n2] = [n0..<(n2::nat)]"
  by (metis le_Suc_ex upt_add_eq_append)

lemma stress_loop_ranges:
  assumes "stress_loop sign post to_addr d st ticks = Inr st'"
    and "nonce_counters st a = Some n0"
  shows "\<exists>n1 new. dispatched st' = dispatched st @ new \<and> nonce_counters st' a = Some n1
           \<and> n1 = n0 + reserved_count a new \<and> reserved_nonces a new = [n0..<n1]"
  using assms
proof (induction ticks arbitrary: st n0)
  case Nil
  then show ?case by (simp add: reserved_nonces_def reserved_count_def)
next
  case (Cons tk tks)
  from Cons.prems(1) obtain mid where
    m: "stress_tick sign post to_addr d st tk = Inr mid"
    and r: "stress_loop sign post to_addr d mid tks = Inr st'"
    by (auto simp: bind_err_def split: sum.splits)
  from stress_tick_ranges [OF m Cons.prems(2)] obtain n1 new1 where
    a: "dispatched mid = dispatched st @ new1" "nonce_counters mid a = Some n1"
       "n1 = n0 + reserved_count a new1" "reserved_nonces a new1 = [n0..<n1]" by blast
  from Cons.IH [OF r a(2)] obtain n2 new2 where
    b: "dispatched st' = dispatched mid @ new2" "nonce_counters st' a = Some n2"
       "n2 = n1 + reserved_count a new2" "reserved_nonces a new2 = [n1..<n2]" by blast
  have "reserved_nonces a (new1 @ new2) = [n0..<n2]"
    using a b upt_chain [of n0 n1 n2] by (simp add: reserved_append)
  moreover have "n2 = n0 + reserved_count a (new1 @ new2)"
    using a b by (simp add: reserved_append)
  moreover have "dispatched st' = dispatched st @ (new1 @ new2)" using a b by simp
  ultimately show ?case using b(2) by blast
qed

lemma stress_loop_fixed_ranges:
  assumes "stress_loop_fixed sign post to_addr d st ticks = Inr st'"
    and "nonce_counters st a = Some n0"
  shows "\<exists>n1 new. dispatched st' = dispatched st @ new \<and> nonce_counters st' a = Some n1
           \<and> n1 = n0 + reserved_count a new \<and> reserved_nonces a new = [n0..<n1]"
  using assms
proof (induction ticks arbitrary: st n0)
  case Nil
  then show ?case by (simp add: reserved_nonces_def reserved_count_def)
next
  case (Cons tk tks)
  from Cons.prems(1) obtain mid where
    m: "stress_tick_fixed sign post to_addr d st tk = Inr mid"
    and r: "stress_loop_fixed sign post to_addr d mid tks = Inr st'"
    by (auto simp: bind_err_def split: sum.splits)
  from stress_tick_fixed_ranges [OF m Cons.prems(2)] obtain n1 new1 where
    a: "dispatched mid = dispatched st @ new1" "nonce_counters mid a = Some n1"
       "n1 = n0 + reserved_count a new1" "reserved_nonces a new1 = [n0..<n1]" by blast
  from Cons.IH [OF r a(2)] obtain n2 new2 where
    b: "dispatched st' = dispatched mid @ new2" "nonce_counters st' a = Some n2"
       "n2 = n1 + reserved_count a new2" "reserved_nonces a new2 = [n1..<n2]" by blast
  have "reserved_nonces a (new1 @ new2) = [n0..<n2]"
    using a b upt_chain [of n0 n1 n2] by (simp add: reserved_append)
  moreover have "n2 = n0 + reserved_count a (new1 @ new2)"
    using a b by (simp add: reserved_append)
  moreover have "dispatched st' = dispatched st @ (new1 @ new2)" using a b by simp
  ultimately show ?case using b(2) by blast
qed

lemma stress_loop_20k_ranges:
  assumes "stress_loop_20k sign post to_addr iv c st ticks = Inr st'"
    and "nonce_counters st a = Some n0"
  shows "\<exists>n1 new. dispatched st' = dispatched st @ new \<and> nonce_counters st' a = Some n1
           \<and> n1 = n0 + reserved_count a new \<and> reserved_nonces a new = [n0..<n1]"
  using assms
proof (induction ticks arbitrary: st n0)
  case Nil
  then show ?case by (simp add: reserved_nonces_def reserved_count_def)
next
  case (Cons tk tks)
  from Cons.prems(1) obtain mid where
    m: "stress_tick_20k sign post to_addr iv c st tk = Inr mid"
    and r: "stress_loop_20k sign post to_addr iv c mid tks = Inr st'"
    by (auto simp: bind_err_def split: sum.splits)
  from stress_tick_20k_ranges [OF m Cons.prems(2)] obtain n1 new1 where
    a: "dispatched mid = dispatched st @ new1" "nonce_counters mid a = Some n1"
       "n1 = n0 + reserved_count a new1" "reserved_nonces a new1 = [n0..<n1]" by blast
  from Cons.IH [OF r a(2)] obtain n2 new2 where
    b: "dispatched st' = dispatched mid @ new2" "nonce_counters st' a = Some n2"
       "n2 = n1 + reserved_count a new2" "reserved_nonces a new2 = [n1..<n2]" by blast
  have "reserved_nonces a (new1 @ new2) = [n0..<n2]"
    using a b upt_chain [of n0 n1 n2] by (simp add: reserved_append)
  moreover have "n2 = n0 + reserved_count a (new1 @ new2)"
    using a b by (simp add: reserved_append)
  moreover have "dispatched st' = dispatched st @ (new1 @ new2)" using a b by simp
  ultimately show ?case using b(2) by blast
qed

lemma send_transaction_batch_total:
  assumes "\<forall>tx key. sign tx key \<noteq> None"
  shows "\<exists>res'. send_transaction_batch sign post to_addr res acc n c = Inr res'"
proof -
  obtain raws where "signed_batch sign to_addr acc n c = Inr raws"
    using signed_batch_ok [of c sign to_addr acc n] assms by blast
  then show ?thesis by (simp add: send_transaction_batch_def bind_err_def Let_def)
qed

lemma run_tasks_total:
  assumes "\<forall>tx key. sign tx key \<noteq> None"
  shows "\<exists>res'. run_tasks sign post to_addr res tasks = Inr res'"
proof (induction tasks arbitrary: res)
  case Nil
  then show ?case by simp
next
  case (Cons t ts)
  obtain acc n c where t: "t = (acc, n, c)" by (cases t) auto
  obtain mid where "send_transaction_batch sign post to_addr res acc n c = Inr mid"
    using send_transaction_batch_total [OF assms] by blast
  with Cons [of mid] t show ?case by (simp add: bind_err_def)
qed

lemma stress_tick_run:
  assumes "\<forall>tx key. sign tx key \<noteq> None"
    and "reserve_batch (nonce_counters st) tk (1000 div length tk) = Inr (tasks, nc)"
  shows "\<exists>st'. stress_tick sign post to_addr d st tk = Inr st'
           \<and> nonce_counters st' = nc \<and> dispatched st' = dispatched st @ tasks
           \<and> sleeps st' = sleeps st @ [Some d]"
proof -
  obtain res where "run_tasks sign post to_addr (results st) tasks = Inr res"
    using run_tasks_total [OF assms(1)] by blast
  with assms(2) show ?thesis by (simp add: stress_tick_def bind_err_def)
qed

lemma send_transaction_batch_fixed_total:
  assumes "\<forall>tx key. sign tx key \<noteq> None"
  shows "\<exists>res'. send_transaction_batch_fixed sign post to_addr res acc n c = Inr res'"
proof -
  obtain raws where "signed_batch sign to_addr acc n c = Inr raws"
    using signed_batch_ok [of c sign to_addr acc n] assms by blast
  then show ?thesis by (simp add: send_transaction_batch_fixed_def bind_err_def Let_def)
qed

lemma run_tasks_fixed_total:
  assumes "\<forall>tx key. sign tx key \<noteq> None"
  shows "\<exists>res'. run_tasks_fixed sign post to_addr res tasks = Inr res'"
proof (induction tasks arbitrary: res)
  case Nil
  then show ?case by simp
next
  case (Cons t ts)
  obtain acc n c where t: "t = (acc, n, c)" by (cases t) auto
  obtain mid sc where "send_transaction_batch_fixed sign post to_addr res acc n c = Inr (mid, sc)"
    using send_transaction_batch_fixed_total [OF assms, of post to_addr res acc n c] by fastforce
  with Cons [of mid] t show ?case by (simp add: bind_err_def)
qed

lemma stress_tick_fixed_run:
  assumes "\<forall>tx key. sign tx key \<noteq> None"
    and "reserve_batch (nonce_counters st) tk (1000 div length tk) = Inr (tasks, nc)"
  shows "\<exists>st'. stress_tick_fixed sign post to_addr d st tk = Inr st'
           \<and> nonce_counters st' = nc \<and> dispatched st' = dispatched st @ tasks
           \<and> sleeps st' = sleeps st @ [Some d]"
proof -
  obtain res where "run_tasks_fixed sign post to_addr (results st) tasks = Inr res"
    using run_tasks_fixed_total [OF assms(1)] by blast
  with assms(2) show ?thesis by (simp add: stress_tick_fixed_def bind_err_def)
qed

text \<open>
  Claim C3. Take any run of a scheduling loop, of \<^verbatim>\<open>stress_test_blocktime.py\<close>, of
  \<^verbatim>\<open>stress_test_blocktime_fixed.py\<close> or of \<^verbatim>\<open>stress_test_20k_tps.py\<close>, from any state,
  and any address \<open>a\<close> with a counter. One reservation gives the task the counter's
  current value and adds the task's size to the counter. Over the run the counter only
  grows, and the nonces given to the tasks of \<open>a\<close>, read task after task, are exactly the
  interval from the counter's first value to its last: no nonce twice, none left out,
  as many as were reserved.
\<close>

theorem nonce_reservations_contiguous:
  assumes "nonce_counters st a = Some n0" and "nonce_counters st2 a = Some m0"
  shows "(stress_loop sign post to_addr batch_delay st ticks = Inr st' \<longrightarrow>
            (\<exists>n1 new. dispatched st' = dispatched st @ new \<and> nonce_counters st' a = Some n1
               \<and> n0 \<le> n1 \<and> n1 = n0 + reserved_count a new
               \<and> reserved_nonces a new = [n0..<n1] \<and> distinct (reserved_nonces a new)
               \<and> length (reserved_nonces a new) = reserved_count a new))
       \<and> (stress_loop_20k sign post to_addr batch_interval txs_per_account st2 ticks2 = Inr st2' \<longrightarrow>
            (\<exists>m1 new. dispatched st2' = dispatched st2 @ new \<and> nonce_counters st2' a = Some m1
               \<and> m0 \<le> m1 \<and> m1 = m0 + reserved_count a new
               \<and> reserved_nonces a new = [m0..<m1] \<and> distinct (reserved_nonces a new)
               \<and> length (reserved_nonces a new) = reserved_count a new))
       \<and> (address acc = a \<longrightarrow>
            reserve_batch (nonce_counters st) [acc] count
              = Inr ([(acc, n0, count)], (nonce_counters st)(a \<mapsto> n0 + count)))
       \<and> (stress_loop_fixed sign post to_addr batch_delay st ticks = Inr st3' \<longrightarrow>
            (\<exists>n1 new. dispatched st3' = dispatched st @ new \<and> nonce_counters st3' a = Some n1
               \<and> n0 \<le> n1 \<and> n1 = n0 + reserved_count a new
               \<and> reserved_nonces a new = [n0..<n1] \<and> distinct (reserved_nonces a new)
               \<and> length (reserved_nonces a new) = reserved_count a new))"
proof (intro conjI impI)
  assume "stress_loop sign post to_addr batch_delay st ticks = Inr st'"
  from stress_loop_ranges [OF this assms(1)] obtain n1 new where
    h: "dispatched st' = dispatched st @ new" "nonce_counters st' a = Some n1"
       "n1 = n0 + reserved_count a new" "reserved_nonces a new = [n0..<n1]" by blast
  then have "distinct (reserved_nonces a new)" "length (reserved_nonces a new) = reserved_count a new"
    "n0 \<le> n1" by simp_all
  with h show "\<exists>n1 new. dispatched st' = dispatched st @ new \<and> nonce_counters st' a = Some n1
               \<and> n0 \<le> n1 \<and> n1 = n0 + reserved_count a new
               \<and> reserved_nonces a new = [n0..<n1] \<and> distinct (reserved_nonces a new)
               \<and> length (reserved_nonces a new) = reserved_count a new" by blast
next
  assume "stress_loop_20k sign post to_addr batch_interval txs_per_account st2 ticks2 = Inr st2'"
  from stress_loop_20k_ranges [OF this assms(2)] obtain n1 new where
    h: "dispatched st2' = dispatched st2 @ new" "nonce_counters st2' a = Some n1"
       "n1 = m0 + reserved_count a new" "reserved_nonces a new = [m0..<n1]" by blast
  then have "distinct (reserved_nonces a new)" "length (reserved_nonces a new) = reserved_count a new"
    "m0 \<le> n1" by simp_all
  with h show "\<exists>m1 new. dispatched st2' = dispatched st2 @ new \<and> nonce_counters st2' a = Some m1
               \<and> m0 \<le> m1 \<and> m1 = m0 + reserved_count a new
               \<and> reserved_nonces a new = [m0..<m1] \<and> distinct (reserved_nonces a new)
               \<and> length (reserved_nonces a new) = reserved_count a new" by blast
next
  assume "address acc = a"
  with assms(1) show "reserve_batch (nonce_counters st) [acc] count
              = Inr ([(acc, n0, count)], (nonce_counters st)(a \<mapsto> n0 + count))"
    by (simp add: bind_err_def)
next
  assume "stress_loop_fixed sign post to_addr batch_delay st ticks = Inr st3'"
  from stress_loop_fixed_ranges [OF this assms(1)] obtain n1 new where
    h: "dispatched st3' = dispatched st @ new" "nonce_counters st3' a = Some n1"
       "n1 = n0 + reserved_count a new" "reserved_nonces a new = [n0..<n1]" by blast
  then have "distinct (reserved_nonces a new)" "length (reserved_nonces a new) = reserved_count a new"
    "n0 \<le> n1" by simp_all
  with h show "\<exists>n1 new. dispatched st3' = dispatched st @ new \<and> nonce_counters st3' a = Some n1
               \<and> n0 \<le> n1 \<and> n1 = n0 + reserved_count a new
               \<and> reserved_nonces a new = [n0..<n1] \<and> distinct (reserved_nonces a new)
               \<and> length (reserved_nonces a new) = reserved_count a new" by blast
qed

theorem nonce_reservations_contiguous_witness:
  "(\<exists>st'. stress_loop (\<lambda>tx key. Some ''f86c'') (\<lambda>p. Json True) (\<lambda>a n. ''0xB'') (1/20)
            \<lparr>nonce_counters = [''0xA'' \<mapsto> 5, ''0xB'' \<mapsto> 0],
             results = \<lparr>sent = 0, confirmed = 0, failed = 0, pending = 0\<rparr>,
             dispatched = [], sleeps = []\<rparr>
            [[\<lparr>address = ''0xA'', private_key = ''ka''\<rparr>, \<lparr>address = ''0xB'', private_key = ''kb''\<rparr>],
             [\<lparr>address = ''0xA'', private_key = ''ka''\<rparr>]] = Inr st'
         \<and> nonce_counters st' ''0xA'' = Some 1505
         \<and> reserved_nonces ''0xA'' (dispatched st') = [5..<1505])
   \<and> (\<exists>st'. stress_loop_20k (\<lambda>tx key. Some ''f86c'') (\<lambda>p. Json True) (\<lambda>a n. ''0xB'') (1/10) 3
            \<lparr>nonce_counters = [''0xA'' \<mapsto> 5, ''0xB'' \<mapsto> 0],
             results = \<lparr>sent = 0, confirmed = 0, failed = 0, pending = 0\<rparr>,
             dispatched = [], sleeps = [], last_batch_time = 0\<rparr>
            [\<lparr>current_time = 0, sending_accounts = [\<lparr>address = ''0xA'', private_key = ''ka''\<rparr>, \<lparr>address = ''0xB'', private_key = ''kb''\<rparr>], time_after_gather = 1/20\<rparr>,
             \<lparr>current_time = 1/20, sending_accounts = [\<lparr>address = ''0xA'', private_key = ''ka''\<rparr>], time_after_gather = 1/5\<rparr>] = Inr st'
         \<and> nonce_counters st' ''0xA'' = Some 11
         \<and> reserved_nonces ''0xA'' (dispatched st') = [5..<11])
   \<and> (\<exists>st'. stress_loop_fixed (\<lambda>tx key. Some ''f86c'') (\<lambda>p. Json True) (\<lambda>a n. ''0xB'') (1/20)
            \<lparr>nonce_counters = [''0xA'' \<mapsto> 5, ''0xB'' \<mapsto> 0],
             results = \<lparr>sent = 0, confirmed = 0, failed = 0, pending = 0\<rparr>,
             dispatched = [], sleeps = []\<rparr>
            [[\<lparr>address = ''0xA'', private_key = ''ka''\<rparr>, \<lparr>address = ''0xB'', private_key = ''kb''\<rparr>],
             [\<lparr>address = ''0xA'', private_key = ''ka''\<rparr>]] = Inr st'
         \<and> nonce_counters st' ''0xA'' = Some 1505
         \<and> reserved_nonces ''0xA'' (dispatched st') = [5..<1505])"
proof -
  let ?sign = "\<lambda>(tx::transaction) (key::string). Some ''f86c''"
  let ?post = "\<lambda>p::payload. Json True"
  let ?to = "\<lambda>(a::string) (n::nat). ''0xB''"
  let ?A = "\<lparr>address = ''0xA'', private_key = ''ka''\<rparr>"
  let ?B = "\<lparr>address = ''0xB'', private_key = ''kb''\<rparr>"
  let ?st = "\<lparr>nonce_counters = [''0xA'' \<mapsto> 5, ''0xB'' \<mapsto> (0::nat)],
             results = \<lparr>sent = 0, confirmed = 0, failed = 0, pending = 0\<rparr>,
             dispatched = [], sleeps = []\<rparr>"
  let ?st2 = "\<lparr>nonce_counters = [''0xA'' \<mapsto> 5, ''0xB'' \<mapsto> (0::nat)],
             results = \<lparr>sent = 0, confirmed = 0, failed = 0, pending = 0\<rparr>,
             dispatched = [], sleeps = [], last_batch_time = 0\<rparr>"
  let ?ticks2 = "[\<lparr>current_time = 0, sending_accounts = [?A, ?B], time_after_gather = 1/20\<rparr>,
             \<lparr>current_time = 1/20, sending_accounts = [?A], time_after_gather = 1/5\<rparr>]"
  have s: "\<forall>tx key. ?sign tx key \<noteq> None" by simp
  have d2: "(1000::nat) div Suc (Suc 0) = 500" by presburger
  have r1: "reserve_batch (nonce_counters ?st) [?A, ?B] (1000 div length [?A, ?B])
              = Inr ([(?A, 5, 500), (?B, 0, 500)], [''0xA'' \<mapsto> 505, ''0xB'' \<mapsto> 500])"
    by (simp add: bind_err_def fun_upd_twist d2)
  from stress_tick_run [OF s r1, of ?post ?to "1/20"] obtain st1 where
    t1: "stress_tick ?sign ?post ?to (1/20) ?st [?A, ?B] = Inr st1"
    and n1: "nonce_counters st1 = [''0xA'' \<mapsto> 505, ''0xB'' \<mapsto> 500]"
    by auto
  have r2: "reserve_batch (nonce_counters st1) [?A] (1000 div length [?A])
              = Inr ([(?A, 505, 1000)], [''0xA'' \<mapsto> 1505, ''0xB'' \<mapsto> 500])"
    by (simp add: n1 bind_err_def fun_upd_twist)
  from stress_tick_run [OF s r2, of ?post ?to "1/20"] obtain st' where
    t2: "stress_tick ?sign ?post ?to (1/20) st1 [?A] = Inr st'"
    by auto
  have run: "stress_loop ?sign ?post ?to (1/20) ?st [[?A, ?B], [?A]] = Inr st'"
    using t1 t2 by (simp add: bind_err_def)
  from stress_tick_fixed_run [OF s r1, of ?post ?to "1/20"] obtain sf1 where
    f1: "stress_tick_fixed ?sign ?post ?to (1/20) ?st [?A, ?B] = Inr sf1"
    and nf1: "nonce_counters sf1 = [''0xA'' \<mapsto> 505, ''0xB'' \<mapsto> 500]"
    by auto
  have rf2: "reserve_batch (nonce_counters sf1) [?A] (1000 div length [?A])
              = Inr ([(?A, 505, 1000)], [''0xA'' \<mapsto> 1505, ''0xB'' \<mapsto> 500])"
    by (simp add: nf1 bind_err_def fun_upd_twist)
  from stress_tick_fixed_run [OF s rf2, of ?post ?to "1/20"] obtain st3' where
    f2: "stress_tick_fixed ?sign ?post ?to (1/20) sf1 [?A] = Inr st3'"
    by auto
  have run3: "stress_loop_fixed ?sign ?post ?to (1/20) ?st [[?A, ?B], [?A]] = Inr st3'"
    using f1 f2 by (simp add: bind_err_def)
  have "case stress_loop_20k ?sign ?post ?to (1/10) 3 ?st2 ?ticks2 of
          Inl e \<Rightarrow> False | Inr st2' \<Rightarrow> True"
    by code_simp
  then obtain st2' where run2: "stress_loop_20k ?sign ?post ?to (1/10) 3 ?st2 ?ticks2 = Inr st2'"
    by (auto split: sum.splits)
  have h1: "nonce_counters ?st ''0xA'' = Some 5" by simp
  have h2: "nonce_counters ?st2 ''0xA'' = Some 5" by simp
  note inst = nonce_reservations_contiguous [OF h1 h2, of ?sign ?post ?to "1/20" "[[?A, ?B], [?A]]" st'
      "1/10" 3 ?ticks2 st2' ?A 1 st3']
  from inst run obtain n1 new where
    a: "dispatched st' = new" "nonce_counters st' ''0xA'' = Some n1"
       "reserved_nonces ''0xA'' new = [5..<n1]"
    by auto
  from inst run2 obtain m1 new2 where
    b: "dispatched st2' = new2" "nonce_counters st2' ''0xA'' = Some m1"
       "reserved_nonces ''0xA'' new2 = [5..<m1]"
    by auto
  have n1: "n1 = 1505"
    using a(2) t2 r2 by (auto simp: stress_tick_def bind_err_def split: sum.splits)
  from inst run3 obtain k1 new3 where
    c: "dispatched st3' = new3" "nonce_counters st3' ''0xA'' = Some k1"
       "reserved_nonces ''0xA'' new3 = [5..<k1]"
    by auto
  have k1: "k1 = 1505"
    using c(2) f2 rf2 by (auto simp: stress_tick_fixed_def bind_err_def split: sum.splits)
  have "case stress_loop_20k ?sign ?post ?to (1/10) 3 ?st2 ?ticks2 of
          Inl e \<Rightarrow> False | Inr st2' \<Rightarrow> nonce_counters st2' ''0xA'' = Some 11"
    by code_simp
  with run2 b(2) have m1: "m1 = 11" by simp
  show ?thesis using run run2 run3 a b c n1 m1 k1 by blast
qed

section \<open>Properties of the block monitors\<close>

lemma perf_poll_advance:
  assumes "height p = Some (last_block st + d)" and "1 \<le> d"
  shows "block_times (perf_poll st p) =
           block_times st @
             replicate (nat d) ((perf_counter p - last_block_time st) * 1000 / real_of_int d)"
    and "last_block (perf_poll st p) = last_block st + d"
    and "last_block_time (perf_poll st p) = perf_counter p"
    and "blocks_produced (perf_poll st p) = blocks_produced st + d"
  using assms by (simp_all add: perf_poll_def Let_def)

lemma perf_poll_idle:
  assumes "height p = None \<or> (\<exists>h. height p = Some h \<and> h \<le> last_block st)"
  shows "perf_poll st p = st"
  using assms by (auto simp: perf_poll_def)

lemma sum_list_replicate_real: "sum_list (replicate n (x::real)) = real n * x"
  by (induction n) (simp_all add: algebra_simps)

lemma perf_monitor_attributes_evenly:
  assumes "monitor_blocks_fixed samples h0 t0 polls = Inr st"
    and "monitor_blocks_20k samples h0 t0 polls = Inr st2"
    and "height p = Some (last_block st + d)" and "1 \<le> d"
  shows "\<exists>st'. monitor_blocks_fixed samples h0 t0 (polls @ [p]) = Inr st'
           \<and> block_times st' = block_times st @
                replicate (nat d) ((perf_counter p - last_block_time st) * 1000 / real_of_int d)"
    and "\<exists>st'. monitor_blocks_20k samples h0 t0 (polls @ [p]) = Inr st'
           \<and> block_times st' = block_times st2 @
                replicate (nat d) ((perf_counter p - last_block_time st2) * 1000 / real_of_int d)"
    and "sum_list (replicate (nat d) ((perf_counter p - last_block_time st) * 1000 / real_of_int d))
           = (perf_counter p - last_block_time st) * 1000"
proof -
  from assms(1) obtain h where h: "h0 = Some h" by (auto simp: monitor_blocks_fixed_def split: option.splits)
  from assms(1,2) h have eq: "st2 = st"
    by (simp add: monitor_blocks_fixed_def monitor_blocks_20k_def)
  from assms(1) h have st: "st = foldl perf_poll
                 \<lparr>last_block = h, blocks_produced = 0, block_times = samples,
                  last_block_time = t0, block_time_measurements = []\<rparr> polls"
    by (simp add: monitor_blocks_fixed_def)
  show "\<exists>st'. monitor_blocks_fixed samples h0 t0 (polls @ [p]) = Inr st'
           \<and> block_times st' = block_times st @
                replicate (nat d) ((perf_counter p - last_block_time st) * 1000 / real_of_int d)"
    using h st perf_poll_advance(1) [OF assms(3,4)] by (simp add: monitor_blocks_fixed_def)
  show "\<exists>st'. monitor_blocks_20k samples h0 t0 (polls @ [p]) = Inr st'
           \<and> block_times st' = block_times st2 @
                replicate (nat d) ((perf_counter p - last_block_time st2) * 1000 / real_of_int d)"
    using h st eq perf_poll_advance(1) [OF assms(3,4)] by (simp add: monitor_blocks_20k_def)
  show "sum_list (replicate (nat d) ((perf_counter p - last_block_time st) * 1000 / real_of_int d))
           = (perf_counter p - last_block_time st) * 1000"
    using assms(4) by (simp add: sum_list_replicate_real)
qed

text \<open>
  Claim C1. The clock monitor does what the claim says (\<open>perf_monitor_attributes_evenly\<close>
  above: a poll that sees the height advance by \<open>d\<close> appends \<open>d\<close> samples, each the
  elapsed monotonic time divided by \<open>d\<close>, which add up to the elapsed time). The monitor
  of \<^verbatim>\<open>stress_test_blocktime.py\<close> does not: at a poll that sees the height jump from
  101 to 104, 240 ms after the last detection, it appends the single sample 85 where the
  clock monitor appends three samples of 80 ms.
\<close>

theorem timestamp_monitor_drops_skipped_blocks:
  "block_times (ts_poll \<lparr>last_block = 101, blocks_produced = 1, block_times = [],
                         last_timestamp = Some 1700000000\<rparr>
                  \<lparr>height = Some 104, timestamp = Some 1700000000, perf_counter = 8 / 25\<rparr>) = [85]
   \<and> block_times (perf_poll \<lparr>last_block = 101, blocks_produced = 1, block_times = [],
                         last_block_time = 2 / 25, block_time_measurements = []\<rparr>
                  \<lparr>height = Some 104, timestamp = Some 1700000000, perf_counter = 8 / 25\<rparr>)
       = [80, 80, 80]"
  by (simp add: ts_poll_def perf_poll_def Let_def numeral_3_eq_3)

text \<open>
  Claim C8. The monitors of \<^verbatim>\<open>stress_test_blocktime.py\<close> and
  \<^verbatim>\<open>stress_test_blocktime_fixed.py\<close> are given the same observations: from height 100
  at clock 0, a poll at 80 ms sees height 101 and a poll at 320 ms sees height 104, both
  blocks carrying the same chain timestamp. The first monitor ends with the sample
  sequence \<open>[85]\<close>, read off the chain's timestamps; the second with four samples of
  80 ms, read off the monotonic clock.
\<close>

theorem monitors_disagree:
  "(case monitor_blocks_blocktime [] (Some 100)
           [\<lparr>height = Some 101, timestamp = Some 1700000000, perf_counter = 2 / 25\<rparr>,
            \<lparr>height = Some 104, timestamp = Some 1700000000, perf_counter = 8 / 25\<rparr>]
    of Inl e \<Rightarrow> [] | Inr st \<Rightarrow> block_times st) = [85]
   \<and> (case monitor_blocks_fixed [] (Some 100) 0
           [\<lparr>height = Some 101, timestamp = Some 1700000000, perf_counter = 2 / 25\<rparr>,
            \<lparr>height = Some 104, timestamp = Some 1700000000, perf_counter = 8 / 25\<rparr>]
    of Inl e \<Rightarrow> [] | Inr st \<Rightarrow> block_times st) = [80, 80, 80, 80]"
  by (simp add: monitor_blocks_blocktime_def monitor_blocks_fixed_def ts_poll_def perf_poll_def
      Let_def numeral_3_eq_3)

lemma simple_loop_snoc:
  "simple_loop st (rs @ [r]) = bind_err (simple_loop st rs) (\<lambda>st'. simple_poll st' r)"
  by (induction rs arbitrary: st) (auto simp: bind_err_def split: sum.splits)

lemma ts_poll_tie:
  assumes "height p = Some h" and "h > last_block st" and "timestamp p = Some t"
    and "last_timestamp st = Some t" and "t \<noteq> 0"
  shows "block_times (ts_poll st p) = block_times st @ [85]"
  using assms by (simp add: ts_poll_def Let_def)

lemma simple_poll_tie:
  assumes "n > last_block_number sm"
  shows "\<exists>sm'. simple_poll sm (Block n (last_timestamp_sm sm)) = Inr sm'
           \<and> block_times_sm sm' = block_times_sm sm @ [85]"
  using assms by (simp add: simple_poll_def Let_def)

text \<open>
  When a timestamp monitor detects a new block whose chain timestamp equals the
  timestamp it recorded last, it appends the constant 85 to the samples:
  \<^verbatim>\<open>monitor_block_production\<close> of \<^verbatim>\<open>simple_blocktime_test.py\<close> always, and
  \<^verbatim>\<open>monitor_blocks\<close> of \<^verbatim>\<open>stress_test_blocktime.py\<close> when the recorded timestamp is
  not zero.
\<close>

lemma equal_timestamps_record_85:
  assumes "height p = Some h" and "timestamp p = Some t" and "t \<noteq> 0"
  shows "(monitor_blocks_blocktime samples h0 polls = Inr st \<and> h > last_block st
            \<and> last_timestamp st = Some t \<longrightarrow>
          (\<exists>st'. monitor_blocks_blocktime samples h0 (polls @ [p]) = Inr st'
             \<and> block_times st' = block_times st @ [85]))
       \<and> (simple_loop sm0 answers = Inr sm \<and> n > last_block_number sm
            \<and> last_timestamp_sm sm = u \<longrightarrow>
          (\<exists>sm'. simple_loop sm0 (answers @ [Block n u]) = Inr sm'
             \<and> block_times_sm sm' = block_times_sm sm @ [85]))"
proof (intro conjI impI)
  assume a: "monitor_blocks_blocktime samples h0 polls = Inr st \<and> h > last_block st
            \<and> last_timestamp st = Some t"
  then obtain b where b: "h0 = Some b"
    by (auto simp: monitor_blocks_blocktime_def split: option.splits)
  with a have st: "st = foldl ts_poll \<lparr>last_block = b, blocks_produced = 0,
      block_times = samples, last_timestamp = None\<rparr> polls"
    by (simp add: monitor_blocks_blocktime_def)
  from a have "block_times (ts_poll st p) = block_times st @ [85]"
    using ts_poll_tie [OF assms(1) _ assms(2) _ assms(3)] by simp
  with b st show "\<exists>st'. monitor_blocks_blocktime samples h0 (polls @ [p]) = Inr st'
             \<and> block_times st' = block_times st @ [85]"
    by (simp add: monitor_blocks_blocktime_def)
next
  assume a: "simple_loop sm0 answers = Inr sm \<and> n > last_block_number sm
            \<and> last_timestamp_sm sm = u"
  then obtain sm' where "simple_poll sm (Block n u) = Inr sm'"
    "block_times_sm sm' = block_times_sm sm @ [85]"
    using simple_poll_tie [of sm n] by auto
  with a show "\<exists>sm'. simple_loop sm0 (answers @ [Block n u]) = Inr sm'
             \<and> block_times_sm sm' = block_times_sm sm @ [85]"
    by (simp add: simple_loop_snoc bind_err_def)
qed


section \<open>Properties of the statistics and the verdict\<close>

lemma statistics_mean_ok: "xs \<noteq> [] \<Longrightarrow> statistics_mean xs = Inr (sum_list xs / real (length xs))"
  by (simp add: statistics_mean_def)

lemma statistics_stdev_ok:
  "2 \<le> length xs \<Longrightarrow>
     statistics_stdev xs =
       Inr (sqrt (sum_list (map (\<lambda>x. (x - sum_list xs / real (length xs)) ^ 2) xs)
                  / real (length xs - 1)))"
  by (simp add: statistics_stdev_def py_div_def bind_err_def Let_def)

lemma std_or_zero_ok:
  "std_or_zero xs =
     Inr (if length xs < 2 then 0
          else sqrt (sum_list (map (\<lambda>x. (x - sum_list xs / real (length xs)) ^ 2) xs)
                     / real (length xs - 1)))"
  by (simp add: std_or_zero_def statistics_stdev_ok)

lemma py_min_max_ok: "xs \<noteq> [] \<Longrightarrow> \<exists>lo hi. py_min xs = Inr lo \<and> py_max xs = Inr hi"
  by (cases xs) (simp_all add: py_min_def py_max_def)

lemma statistics_quantiles20_18_ok:
  assumes "2 \<le> length xs"
  shows "\<exists>p. statistics_quantiles20_18 xs = Inr p"
proof -
  have "case statistics_quantiles20_18 xs of Inl e \<Rightarrow> False | Inr p \<Rightarrow> True"
    using assms by (simp add: statistics_quantiles20_18_def Let_def)
  then show ?thesis by (cases "statistics_quantiles20_18 xs") simp_all
qed

lemma percentile_95_of_ok: "xs \<noteq> [] \<Longrightarrow> \<exists>p. percentile_95_of xs = Inr p"
proof (cases "length xs > 20")
  case True
  then have "2 \<le> length xs" by simp
  from statistics_quantiles20_18_ok [OF this] True show ?thesis
    by (simp add: percentile_95_of_def)
next
  case False
  assume "xs \<noteq> []"
  from py_min_max_ok [OF this] False show ?thesis
    by (auto simp: percentile_95_of_def)
qed

lemma share_under_ok:
  "xs \<noteq> [] \<Longrightarrow>
     share_under limit xs =
       Inr (real (length (filter (\<lambda>t. t \<le> limit) xs)) / real (length xs) * 100)"
  by (simp add: share_under_def py_div_def bind_err_def)

lemma simple_spread_ok:
  "\<exists>sp. simple_spread xs = Inr sp \<and> (sp = None \<longleftrightarrow> length xs < 2)"
proof (cases "length xs > 1")
  case True
  then have "xs \<noteq> []" by auto
  from py_min_max_ok [OF this] True show ?thesis
    by (auto simp: simple_spread_def statistics_stdev_ok bind_err_def)
next
  case False
  then show ?thesis by (simp add: simple_spread_def)
qed

lemma analyse_blocktime_ok:
  assumes "xs \<noteq> []" and "stress_duration \<noteq> 0"
  shows "\<exists>r. analyse_blocktime xs res stress_duration = Inr (Some r)
           \<and> avg_block_time r = sum_list xs / real (length xs)
           \<and> effective_tps r = real (sent res) / stress_duration
           \<and> verdict r = verdict_blocktime (sum_list xs / real (length xs))
           \<and> std_block_time r =
               (if length xs < 2 then 0
                else sqrt (sum_list (map (\<lambda>x. (x - sum_list xs / real (length xs)) ^ 2) xs)
                           / real (length xs - 1)))"
proof -
  obtain lo hi where m: "py_min xs = Inr lo" "py_max xs = Inr hi"
    using py_min_max_ok [OF assms(1)] by blast
  obtain p where p: "percentile_95_of xs = Inr p"
    using percentile_95_of_ok [OF assms(1)] by blast
  show ?thesis
    using assms m p
    by (simp add: analyse_blocktime_def bind_err_def statistics_mean_ok std_or_zero_ok
        share_under_ok py_div_def)
qed

lemma analyse_20k_ok:
  assumes "xs \<noteq> []" and "stress_duration \<noteq> 0"
  shows "\<exists>r. analyse_20k xs res stress_duration = Inr (Some r)
           \<and> avg_block_time r = sum_list xs / real (length xs)
           \<and> effective_tps r = real (sent res) / stress_duration
           \<and> verdict r = verdict_20k (sum_list xs / real (length xs))
                            (real (sent res) / stress_duration)
           \<and> std_block_time r =
               (if length xs < 2 then 0
                else sqrt (sum_list (map (\<lambda>x. (x - sum_list xs / real (length xs)) ^ 2) xs)
                           / real (length xs - 1)))"
proof -
  obtain lo hi where m: "py_min xs = Inr lo" "py_max xs = Inr hi"
    using py_min_max_ok [OF assms(1)] by blast
  obtain p where p: "percentile_95_of xs = Inr p"
    using percentile_95_of_ok [OF assms(1)] by blast
  show ?thesis
    using assms m p
    by (simp add: analyse_20k_def bind_err_def statistics_mean_ok std_or_zero_ok
        share_under_ok py_div_def)
qed

text \<open>
  Claim C2, amended. Whenever the loaded phase has a sample and the stress duration is
  not zero, the analysis ends with a verdict. In \<^verbatim>\<open>stress_test_20k_tps.py\<close> it is the
  claim's ordered chain with inclusive bounds: the best tier exactly when the mean is at
  most 85 and the achieved rate at least 18000, otherwise the middle tier exactly when
  the mean is at most 100 and the rate at least 15000, otherwise the failing tier. In
  \<^verbatim>\<open>stress_test_blocktime.py\<close> and its fixed copy the verdict reads the mean only: at
  most 85, at most 100, or above. A mean of 90 at a rate of 16000 is the middle tier in
  all of them.
\<close>

theorem verdict_rule_chain:
  assumes "xs \<noteq> []" and "stress_duration \<noteq> 0"
    and "mean = sum_list xs / real (length xs)"
    and "tps = real (sent res) / stress_duration"
  shows "\<exists>r q. analyse_20k xs res stress_duration = Inr (Some r)
           \<and> analyse_blocktime xs res stress_duration = Inr (Some q)
           \<and> avg_block_time r = mean \<and> effective_tps r = tps
           \<and> avg_block_time q = mean \<and> effective_tps q = tps
           \<and> (verdict r = Maintained \<longleftrightarrow> mean \<le> 85 \<and> tps \<ge> 18000)
           \<and> (verdict r = Acceptable \<longleftrightarrow>
                 \<not> (mean \<le> 85 \<and> tps \<ge> 18000) \<and> mean \<le> 100 \<and> tps \<ge> 15000)
           \<and> (verdict r = Struggled \<longleftrightarrow>
                 \<not> (mean \<le> 85 \<and> tps \<ge> 18000) \<and> \<not> (mean \<le> 100 \<and> tps \<ge> 15000))
           \<and> (verdict q = Maintained \<longleftrightarrow> mean \<le> 85)
           \<and> (verdict q = Acceptable \<longleftrightarrow> 85 < mean \<and> mean \<le> 100)
           \<and> (verdict q = Struggled \<longleftrightarrow> 100 < mean)
           \<and> (mean = 90 \<and> tps = 16000 \<longrightarrow> verdict r = Acceptable \<and> verdict q = Acceptable)"
proof -
  obtain r where r: "analyse_20k xs res stress_duration = Inr (Some r)"
    "avg_block_time r = mean" "effective_tps r = tps" "verdict r = verdict_20k mean tps"
    using analyse_20k_ok [OF assms(1,2), of res] assms(3,4) by auto
  obtain q where q: "analyse_blocktime xs res stress_duration = Inr (Some q)"
    "avg_block_time q = mean" "effective_tps q = tps" "verdict q = verdict_blocktime mean"
    using analyse_blocktime_ok [OF assms(1,2), of res] assms(3,4) by auto
  have v: "(verdict r = Maintained \<longleftrightarrow> mean \<le> 85 \<and> tps \<ge> 18000)
           \<and> (verdict r = Acceptable \<longleftrightarrow>
                 \<not> (mean \<le> 85 \<and> tps \<ge> 18000) \<and> mean \<le> 100 \<and> tps \<ge> 15000)
           \<and> (verdict r = Struggled \<longleftrightarrow>
                 \<not> (mean \<le> 85 \<and> tps \<ge> 18000) \<and> \<not> (mean \<le> 100 \<and> tps \<ge> 15000))"
    using r(4) by (simp add: verdict_20k_def)
  have w: "(verdict q = Maintained \<longleftrightarrow> mean \<le> 85)
           \<and> (verdict q = Acceptable \<longleftrightarrow> 85 < mean \<and> mean \<le> 100)
           \<and> (verdict q = Struggled \<longleftrightarrow> 100 < mean)"
    using q(4) by (auto simp: verdict_blocktime_def)
  have e: "mean = 90 \<and> tps = 16000 \<longrightarrow> verdict r = Acceptable \<and> verdict q = Acceptable"
    using r(4) q(4) by (simp add: verdict_20k_def verdict_blocktime_def)
  from r(1,2,3) q(1,2,3) v w e show ?thesis by blast
qed

theorem verdict_rule_chain_witness:
  "\<exists>r q. analyse_20k [90] \<lparr>sent = 480000, confirmed = 0, failed = 0, pending = 0\<rparr> 30 = Inr (Some r)
       \<and> analyse_blocktime [90] \<lparr>sent = 480000, confirmed = 0, failed = 0, pending = 0\<rparr> 30
           = Inr (Some q)
       \<and> avg_block_time r = 90 \<and> effective_tps r = 16000
       \<and> verdict r = Acceptable \<and> verdict q = Acceptable"
proof -
  have h1: "[90::real] \<noteq> []" and h2: "(30::real) \<noteq> 0"
    and h3: "(90::real) = sum_list [90] / real (length [90::real])"
    and h4: "(16000::real) = real (sent \<lparr>sent = 480000, confirmed = 0, failed = 0, pending = 0\<rparr>) / 30"
    by simp_all
  from verdict_rule_chain [OF h1 h2 h3 h4] show ?thesis by blast
qed

text \<open>
  Claim C2 as stated fails in \<^verbatim>\<open>stress_test_blocktime.py\<close>: with a mean of 80 ms and
  no transaction accepted at all, the verdict is the best tier.
\<close>

theorem verdict_ignores_throughput_counterexample:
  "\<exists>q. analyse_blocktime [80] \<lparr>sent = 0, confirmed = 0, failed = 0, pending = 0\<rparr> 30 = Inr (Some q)
      \<and> avg_block_time q = 80 \<and> effective_tps q = 0
      \<and> verdict q = Maintained \<and> \<not> (avg_block_time q \<le> 85 \<and> effective_tps q \<ge> 18000)"
proof -
  have h1: "[80::real] \<noteq> []" and h2: "(30::real) \<noteq> 0" by simp_all
  from analyse_blocktime_ok [OF h1 h2, of "\<lparr>sent = 0, confirmed = 0, failed = 0, pending = 0\<rparr>"]
  show ?thesis by (auto simp: verdict_blocktime_def)
qed

lemma analyse_blocktime_std:
  assumes "analyse_blocktime xs res d = Inr (Some r)"
  shows "std_block_time r =
           (if length xs < 2 then 0
            else sqrt (sum_list (map (\<lambda>x. (x - sum_list xs / real (length xs)) ^ 2) xs)
                       / real (length xs - 1)))"
proof -
  from assms have n: "xs \<noteq> []" by (auto simp: analyse_blocktime_def)
  have d: "d \<noteq> 0"
  proof
    assume "d = 0"
    obtain lo hi where "py_min xs = Inr lo" "py_max xs = Inr hi"
      using py_min_max_ok [OF n] by blast
    moreover obtain p where "percentile_95_of xs = Inr p"
      using percentile_95_of_ok [OF n] by blast
    ultimately have "analyse_blocktime xs res d = Inl ZeroDivisionError"
      using n \<open>d = 0\<close>
      by (simp add: analyse_blocktime_def bind_err_def statistics_mean_ok std_or_zero_ok
          share_under_ok py_div_def)
    with assms show False by simp
  qed
  from analyse_blocktime_ok [OF n d, of res] assms show ?thesis by auto
qed

lemma final_statistics_spread:
  assumes "final_statistics xs produced gl rc d = Inr (Statistics s)"
  shows "spread_lines s = None \<longleftrightarrow> length xs < 2"
proof -
  obtain sp where sp: "simple_spread xs = Inr sp" "sp = None \<longleftrightarrow> length xs < 2"
    using simple_spread_ok [of xs] by blast
  from assms have n: "xs \<noteq> []" by (auto simp: final_statistics_def)
  from assms n sp(1) have "spread_lines s = sp"
    by (auto simp: final_statistics_def bind_err_def statistics_mean_ok share_under_ok
        split: sum.splits if_splits)
  with sp(2) show ?thesis by simp
qed

text \<open>
  Claim C6, amended. \<^verbatim>\<open>statistics.stdev\<close> is never called on fewer than two samples
  (it would raise), so computing the deviation raises nothing and divides by nothing
  that is zero. \<^verbatim>\<open>simple_blocktime_test.py\<close> leaves the deviation line out exactly when
  there are fewer than two samples. The stress-test scripts put the number 0 in its
  place when there is one sample.
\<close>

theorem stdev_guarded:
  "(\<exists>sd. std_or_zero xs = Inr sd \<and> (length xs < 2 \<longrightarrow> sd = 0))
   \<and> (\<exists>sp. simple_spread xs = Inr sp \<and> (sp = None \<longleftrightarrow> length xs < 2))
   \<and> (length xs < 2 \<longrightarrow> statistics_stdev xs = Inl StatisticsError)
   \<and> (analyse_blocktime xs res d = Inr (Some r) \<and> length xs < 2 \<longrightarrow> std_block_time r = 0)
   \<and> (final_statistics xs produced gl rc d' = Inr (Statistics s) \<longrightarrow>
         (spread_lines s = None \<longleftrightarrow> length xs < 2))"
proof (intro conjI impI)
  show "\<exists>sd. std_or_zero xs = Inr sd \<and> (length xs < 2 \<longrightarrow> sd = 0)"
    by (simp add: std_or_zero_ok)
  show "\<exists>sp. simple_spread xs = Inr sp \<and> (sp = None \<longleftrightarrow> length xs < 2)"
    by (rule simple_spread_ok)
  show "statistics_stdev xs = Inl StatisticsError" if "length xs < 2"
    using that by (simp add: statistics_stdev_def)
  show "std_block_time r = 0" if "analyse_blocktime xs res d = Inr (Some r) \<and> length xs < 2"
    using that analyse_blocktime_std [of xs res d r] by simp
  show "spread_lines s = None \<longleftrightarrow> length xs < 2"
    if "final_statistics xs produced gl rc d' = Inr (Statistics s)"
    using that by (rule final_statistics_spread)
qed

theorem stdev_guarded_witness:
  "std_or_zero [85] = Inr 0 \<and> simple_spread [85] = Inr None
   \<and> statistics_stdev [85] = Inl StatisticsError
   \<and> (\<exists>r. analyse_blocktime [85] \<lparr>sent = 0, confirmed = 0, failed = 0, pending = 0\<rparr> 30
             = Inr (Some r) \<and> std_block_time r = 0)
   \<and> (\<exists>s. final_statistics [85] 1 False 0 30 = Inr (Statistics s) \<and> spread_lines s = None)"
proof -
  let ?res = "\<lparr>sent = 0, confirmed = 0, failed = 0, pending = 0\<rparr>"
  have h1: "[85::real] \<noteq> []" and h2: "(30::real) \<noteq> 0" by simp_all
  obtain r where r: "analyse_blocktime [85] ?res 30 = Inr (Some r)"
    using analyse_blocktime_ok [OF h1 h2, of ?res] by blast
  obtain s where s: "final_statistics [85] 1 False 0 30 = Inr (Statistics s)"
    by (simp add: final_statistics_def bind_err_def statistics_mean_ok share_under_ok
        simple_spread_def)
  from stdev_guarded [of "[85]" ?res 30 r 1 False 0 30 s] r s show ?thesis by auto
qed

text \<open>
  Claim C6 as stated fails in \<^verbatim>\<open>stress_test_blocktime.py\<close>: with the single sample 85
  the analysis reports a standard deviation, the number 0.
\<close>

theorem stdev_reported_as_zero_counterexample:
  "\<exists>r. analyse_blocktime [85] \<lparr>sent = 0, confirmed = 0, failed = 0, pending = 0\<rparr> 30 = Inr (Some r)
      \<and> length [85::real] < 2 \<and> std_block_time r = 0 \<and> avg_block_time r = 85"
proof -
  have h1: "[85::real] \<noteq> []" and h2: "(30::real) \<noteq> 0" by simp_all
  from analyse_blocktime_ok [OF h1 h2, of "\<lparr>sent = 0, confirmed = 0, failed = 0, pending = 0\<rparr>"]
  show ?thesis by auto
qed

lemma foldl_ts_poll_stalled:
  assumes "last_block st = h"
    and "list_all (\<lambda>p. case height p of None \<Rightarrow> True | Some c \<Rightarrow> c \<le> h) polls"
  shows "foldl ts_poll st polls = st"
  using assms(2)
proof (induction polls)
  case Nil
  then show ?case by simp
next
  case (Cons p ps)
  then have "ts_poll st p = st" using assms(1) by (auto simp: ts_poll_def split: option.splits)
  with Cons show ?case by simp
qed

lemma foldl_perf_poll_stalled:
  assumes "last_block st = h"
    and "list_all (\<lambda>p. case height p of None \<Rightarrow> True | Some c \<Rightarrow> c \<le> h) polls"
  shows "foldl perf_poll st polls = st"
  using assms(2)
proof (induction polls)
  case Nil
  then show ?case by simp
next
  case (Cons p ps)
  then have "perf_poll st p = st" using assms(1) by (auto simp: perf_poll_def split: option.splits)
  with Cons show ?case by simp
qed

lemma simple_loop_stalled:
  assumes "last_block_number st = h"
    and "list_all (\<lambda>a. case a of NoResult \<Rightarrow> True | NullBlock \<Rightarrow> False
                          | Block m u \<Rightarrow> m \<le> h) answers"
  shows "simple_loop st answers = Inr st"
  using assms(2)
proof (induction answers)
  case Nil
  then show ?case by simp
next
  case (Cons a as)
  then have "simple_poll st a = Inr st" using assms(1) by (auto simp: simple_poll_def split: rpc_block.splits)
  with Cons show ?case by simp
qed

lemma load_task_zero_rate_raises:
  "monitor_block_production samples (Block n t) (a # answers) True 0 rc d = Inl ZeroDivisionError"
  by (simp add: monitor_block_production_def load_task_failure_def)

text \<open>
  Claim C4, amended. On an empty sample sequence no statistic is computed and nothing
  raises, whatever the duration. \<^verbatim>\<open>monitor_block_production\<close> of
  \<^verbatim>\<open>simple_blocktime_test.py\<close>, run without the load task or with a load rate that is
  not zero, then prints its ``No new blocks detected'' line. The \<^verbatim>\<open>run_full_test\<close>
  functions print neither statistics nor a verdict: when the banner's queries are
  answered and no poll of the loaded phase sees the height advance, the run ends with
  the baseline lines and nothing else.
\<close>

theorem empty_phase_prints_no_verdict:
  assumes "list_all (\<lambda>p. case height p of None \<Rightarrow> True | Some c \<Rightarrow> c \<le> h) polls"
    and "list_all (\<lambda>a. case a of NoResult \<Rightarrow> True | NullBlock \<Rightarrow> False | Block m u \<Rightarrow> m \<le> h)
           answers"
  shows "analyse_blocktime [] res d = Inr None \<and> analyse_20k [] res d = Inr None
       \<and> baseline_results [] = Inr None
       \<and> final_statistics [] produced gl rc d = Inr NoNewBlocks
       \<and> (monitor_blocks_blocktime [] h1 polls1 = Inr m1 \<and> baseline_results (block_times m1) = Inr b
            \<longrightarrow> run_full_test_blocktime True (Some latest) h1 polls1 (Some h) polls (Inr res) d
                  = Inr (Ran b None))
       \<and> (monitor_blocks_20k [] h1 t1 polls1 = Inr m2 \<and> baseline_results (block_times m2) = Inr b2
            \<longrightarrow> run_full_test_20k True (Some latest) (Some chain) h1 t1 polls1 (Some h) t2 polls
                    (Inr res) d
                  = Inr (Ran b2 None))
       \<and> (\<not> gl \<or> load_rps \<noteq> 0
            \<longrightarrow> monitor_block_production [] (Block h u) answers gl load_rps rc d = Inr NoNewBlocks)"
proof -
  have a: "analyse_blocktime [] res d = Inr None" "analyse_20k [] res d = Inr None"
    "baseline_results [] = Inr None" "final_statistics [] produced gl rc d = Inr NoNewBlocks"
    by (simp_all add: analyse_blocktime_def analyse_20k_def baseline_results_def
        final_statistics_def)
  have m: "monitor_blocks_blocktime [] (Some h) polls
             = Inr \<lparr>last_block = h, blocks_produced = 0, block_times = [], last_timestamp = None\<rparr>"
    using foldl_ts_poll_stalled [OF _ assms(1), of "\<lparr>last_block = h, blocks_produced = 0,
        block_times = [], last_timestamp = None\<rparr>"]
    by (simp add: monitor_blocks_blocktime_def)
  have k: "monitor_blocks_20k [] (Some h) t2 polls
             = Inr \<lparr>last_block = h, blocks_produced = 0, block_times = [],
                   last_block_time = t2, block_time_measurements = []\<rparr>"
    using foldl_perf_poll_stalled [OF _ assms(1), of "\<lparr>last_block = h, blocks_produced = 0,
        block_times = [], last_block_time = t2, block_time_measurements = []\<rparr>"]
    by (simp add: monitor_blocks_20k_def)
  have s: "monitor_block_production [] (Block h u) answers gl load_rps rc d = Inr NoNewBlocks"
    if "\<not> gl \<or> load_rps \<noteq> 0"
  proof -
    from that have "load_task_failure gl load_rps (length answers) = None"
      by (auto simp: load_task_failure_def)
    then show ?thesis
      using simple_loop_stalled [OF _ assms(2), of "\<lparr>last_block_number = h,
          last_timestamp_sm = u, blocks_produced_sm = 0, block_times_sm = []\<rparr>"]
      by (simp add: monitor_block_production_def bind_err_def final_statistics_def)
  qed
  have r1: "run_full_test_blocktime True (Some latest) h1 polls1 (Some h) polls (Inr res) d
              = Inr (Ran b None)"
    if "monitor_blocks_blocktime [] h1 polls1 = Inr m1 \<and> baseline_results (block_times m1) = Inr b"
    using that m a(1) by (simp add: run_full_test_blocktime_def banner_query_def bind_err_def)
  have r2: "run_full_test_20k True (Some latest) (Some chain) h1 t1 polls1 (Some h) t2 polls
              (Inr res) d = Inr (Ran b2 None)"
    if "monitor_blocks_20k [] h1 t1 polls1 = Inr m2 \<and> baseline_results (block_times m2) = Inr b2"
    using that k a(2) by (simp add: run_full_test_20k_def banner_query_def bind_err_def)
  from a s r1 r2 show ?thesis by blast
qed

theorem empty_phase_prints_no_verdict_witness:
  "run_full_test_blocktime True (Some 100) (Some 100)
      [\<lparr>height = Some 100, timestamp = None, perf_counter = 1 / 20\<rparr>] (Some 100)
      [\<lparr>height = Some 100, timestamp = None, perf_counter = 1 / 20\<rparr>,
       \<lparr>height = None, timestamp = None, perf_counter = 1 / 10\<rparr>]
      (Inr \<lparr>sent = 0, confirmed = 0, failed = 600000, pending = 0\<rparr>) 30 = Inr (Ran None None)
   \<and> run_full_test_20k True (Some 100) (Some 713715) (Some 100) 0
      [\<lparr>height = Some 100, timestamp = None, perf_counter = 1 / 20\<rparr>] (Some 100) 31
      [\<lparr>height = Some 100, timestamp = None, perf_counter = 1 / 20\<rparr>,
       \<lparr>height = None, timestamp = None, perf_counter = 1 / 10\<rparr>]
      (Inr \<lparr>sent = 0, confirmed = 0, failed = 600000, pending = 0\<rparr>) 30 = Inr (Ran None None)
   \<and> monitor_block_production [] (Block 100 1700000000)
        [NoResult, Block 100 1700000000] True 5000 2 30 = Inr NoNewBlocks"
proof -
  let ?p = "\<lparr>height = Some 100, timestamp = None, perf_counter = 1 / 20\<rparr>"
  let ?q = "\<lparr>height = None, timestamp = None, perf_counter = 1 / 10\<rparr>"
  let ?res = "\<lparr>sent = 0, confirmed = 0, failed = 600000, pending = 0\<rparr>"
  have h1: "list_all (\<lambda>p. case height p of None \<Rightarrow> True | Some c \<Rightarrow> c \<le> 100) [?p, ?q]"
    by simp
  have h2: "list_all (\<lambda>a. case a of NoResult \<Rightarrow> True | NullBlock \<Rightarrow> False | Block m u \<Rightarrow> m \<le> 100)
              [NoResult, Block 100 1700000000]"
    by simp
  have m1: "monitor_blocks_blocktime [] (Some 100) [?p]
              = Inr \<lparr>last_block = 100, blocks_produced = 0, block_times = [], last_timestamp = None\<rparr>"
    by (simp add: monitor_blocks_blocktime_def ts_poll_def)
  have m2: "monitor_blocks_20k [] (Some 100) 0 [?p]
              = Inr \<lparr>last_block = 100, blocks_produced = 0, block_times = [],
                    last_block_time = 0, block_time_measurements = []\<rparr>"
    by (simp add: monitor_blocks_20k_def perf_poll_def)
  have b: "baseline_results [] = Inr None" by (simp add: baseline_results_def)
  from empty_phase_prints_no_verdict [OF h1 h2, of ?res 30 0 True 2 "Some 100" "[?p]"
      "\<lparr>last_block = 100, blocks_produced = 0, block_times = [], last_timestamp = None\<rparr>" None
      100 0 "\<lparr>last_block = 100, blocks_produced = 0, block_times = [],
                    last_block_time = 0, block_time_measurements = []\<rparr>" None 713715 31 5000
      1700000000]
    m1 m2 b
  show ?thesis by simp
qed

text \<open>
  Claim C4 as stated fails: a run of \<^verbatim>\<open>stress_test_blocktime.py\<close> against a chain that
  stays at height 100 ends without a verdict.
\<close>

theorem stalled_chain_no_verdict_counterexample:
  "run_full_test_blocktime True (Some 100) (Some 100)
      [\<lparr>height = Some 100, timestamp = None, perf_counter = 1 / 20\<rparr>] (Some 100)
      [\<lparr>height = Some 100, timestamp = None, perf_counter = 1 / 20\<rparr>,
       \<lparr>height = Some 100, timestamp = None, perf_counter = 1 / 10\<rparr>]
      (Inr \<lparr>sent = 0, confirmed = 0, failed = 600000, pending = 0\<rparr>) 30 = Inr (Ran None None)
   \<and> \<not> (\<exists>b a. Ran None None = Ran b (Some (a::analysis)))"
  by (simp add: run_full_test_blocktime_def banner_query_def monitor_blocks_blocktime_def
      ts_poll_def baseline_results_def analyse_blocktime_def bind_err_def)

section \<open>Properties of the scheduling loops\<close>

lemma send_transaction_batch_optimized_total:
  assumes "\<forall>tx key. sign tx key \<noteq> None"
  shows "\<exists>out. send_transaction_batch_optimized sign post to_addr res acc n c = Inr out"
proof -
  obtain raws where "signed_batch sign to_addr acc n c = Inr raws"
    using signed_batch_ok [of c sign to_addr acc n] assms by blast
  then show ?thesis by (simp add: send_transaction_batch_optimized_def bind_err_def Let_def)
qed

lemma run_tasks_optimized_total:
  assumes "\<forall>tx key. sign tx key \<noteq> None"
  shows "\<exists>res'. run_tasks_optimized sign post to_addr res tasks = Inr res'"
proof (induction tasks arbitrary: res)
  case Nil
  then show ?case by simp
next
  case (Cons t ts)
  obtain acc n c where t: "t = (acc, n, c)" by (cases t) auto
  obtain mid k where "send_transaction_batch_optimized sign post to_addr res acc n c = Inr (mid, k)"
    using send_transaction_batch_optimized_total [OF assms, of post to_addr res acc n c]
    by (metis surj_pair)
  with Cons [of mid] t show ?case by (simp add: bind_err_def)
qed

lemma stress_loop_total:
  assumes "\<forall>tx key. sign tx key \<noteq> None"
    and "list_all (list_all (\<lambda>acc. address acc \<in> dom (nonce_counters st))) ticks"
  shows "\<exists>st'. stress_loop sign post to_addr d st ticks = Inr st'"
  using assms(2)
proof (induction ticks arbitrary: st)
  case Nil
  then show ?case by simp
next
  case (Cons tk tks)
  then have k: "list_all (\<lambda>acc. address acc \<in> dom (nonce_counters st)) tk" by simp
  obtain tasks nc where r: "reserve_batch (nonce_counters st) tk (1000 div length tk) = Inr (tasks, nc)"
    and d: "dom nc = dom (nonce_counters st)"
    using reserve_batch_total [OF k] by blast
  obtain mid where m: "stress_tick sign post to_addr d st tk = Inr mid" "nonce_counters mid = nc"
    using stress_tick_run [OF assms(1) r] by blast
  with d Cons.prems have "list_all (list_all (\<lambda>acc. address acc \<in> dom (nonce_counters mid))) tks"
    by simp
  from Cons.IH [OF this] m(1) show ?case by (simp add: bind_err_def)
qed

lemma stress_loop_fixed_total:
  assumes "\<forall>tx key. sign tx key \<noteq> None"
    and "list_all (list_all (\<lambda>acc. address acc \<in> dom (nonce_counters st))) ticks"
  shows "\<exists>st'. stress_loop_fixed sign post to_addr d st ticks = Inr st'"
  using assms(2)
proof (induction ticks arbitrary: st)
  case Nil
  then show ?case by simp
next
  case (Cons tk tks)
  then have k: "list_all (\<lambda>acc. address acc \<in> dom (nonce_counters st)) tk" by simp
  obtain tasks nc where r: "reserve_batch (nonce_counters st) tk (1000 div length tk) = Inr (tasks, nc)"
    and d: "dom nc = dom (nonce_counters st)"
    using reserve_batch_total [OF k] by blast
  obtain mid where m: "stress_tick_fixed sign post to_addr d st tk = Inr mid" "nonce_counters mid = nc"
    using stress_tick_fixed_run [OF assms(1) r] by blast
  with d Cons.prems have "list_all (list_all (\<lambda>acc. address acc \<in> dom (nonce_counters mid))) tks"
    by simp
  from Cons.IH [OF this] m(1) show ?case by (simp add: bind_err_def)
qed

lemma stress_tick_20k_run:
  assumes "\<forall>tx key. sign tx key \<noteq> None"
    and "reserve_batch (nonce_counters st) (sending_accounts tk) c = Inr (tasks, nc)"
  shows "\<exists>st'. stress_tick_20k sign post to_addr iv c st tk = Inr st' \<and> nonce_counters st' = nc"
proof -
  obtain res where "run_tasks_optimized sign post to_addr (results st) tasks = Inr res"
    using run_tasks_optimized_total [OF assms(1)] by blast
  with assms(2) show ?thesis by (simp add: stress_tick_20k_def bind_err_def Let_def)
qed

lemma stress_loop_20k_total:
  assumes "\<forall>tx key. sign tx key \<noteq> None"
    and "list_all (\<lambda>tk. list_all (\<lambda>acc. address acc \<in> dom (nonce_counters st))
                         (sending_accounts tk)) ticks"
  shows "\<exists>st'. stress_loop_20k sign post to_addr iv c st ticks = Inr st'"
  using assms(2)
proof (induction ticks arbitrary: st)
  case Nil
  then show ?case by simp
next
  case (Cons tk tks)
  then have k: "list_all (\<lambda>acc. address acc \<in> dom (nonce_counters st)) (sending_accounts tk)"
    by simp
  obtain tasks nc where r: "reserve_batch (nonce_counters st) (sending_accounts tk) c = Inr (tasks, nc)"
    and d: "dom nc = dom (nonce_counters st)"
    using reserve_batch_total [OF k] by blast
  obtain mid where m: "stress_tick_20k sign post to_addr iv c st tk = Inr mid"
    "nonce_counters mid = nc"
    using stress_tick_20k_run [OF assms(1) r] by blast
  with d Cons.prems have "list_all (\<lambda>tk. list_all (\<lambda>acc. address acc \<in> dom (nonce_counters mid))
                         (sending_accounts tk)) tks"
    by simp
  from Cons.IH [OF this] m(1) show ?case by (simp add: bind_err_def)
qed

lemma stress_loop_sleeps:
  assumes "stress_loop sign post to_addr d st ticks = Inr st'"
  shows "sleeps st' = sleeps st @ replicate (length ticks) (Some d)"
  using assms
proof (induction ticks arbitrary: st)
  case Nil
  then show ?case by simp
next
  case (Cons tk tks)
  from Cons.prems obtain mid where
    m: "stress_tick sign post to_addr d st tk = Inr mid"
    and r: "stress_loop sign post to_addr d mid tks = Inr st'"
    by (auto simp: bind_err_def split: sum.splits)
  from m have "sleeps mid = sleeps st @ [Some d]"
    by (auto simp: stress_tick_def bind_err_def split: sum.splits prod.splits)
  with Cons.IH [OF r] show ?case by (simp add: replicate_app_Cons_same)
qed

lemma stress_loop_fixed_sleeps:
  assumes "stress_loop_fixed sign post to_addr d st ticks = Inr st'"
  shows "sleeps st' = sleeps st @ replicate (length ticks) (Some d)"
  using assms
proof (induction ticks arbitrary: st)
  case Nil
  then show ?case by simp
next
  case (Cons tk tks)
  from Cons.prems obtain mid where
    m: "stress_tick_fixed sign post to_addr d st tk = Inr mid"
    and r: "stress_loop_fixed sign post to_addr d mid tks = Inr st'"
    by (auto simp: bind_err_def split: sum.splits)
  from m have "sleeps mid = sleeps st @ [Some d]"
    by (auto simp: stress_tick_fixed_def bind_err_def split: sum.splits prod.splits)
  with Cons.IH [OF r] show ?case by (simp add: replicate_app_Cons_same)
qed

lemma stress_loop_20k_sleeps:
  assumes "stress_loop_20k sign post to_addr iv c st ticks = Inr st'"
  shows "sleeps st' = sleeps st @
           map (\<lambda>(last, tk). if current_time tk - last < iv
                              then Some (iv - (current_time tk - last)) else None)
               (zip (last_batch_time st # map time_after_gather ticks) ticks)"
  using assms
proof (induction ticks arbitrary: st)
  case Nil
  then show ?case by simp
next
  case (Cons tk tks)
  from Cons.prems obtain mid where
    m: "stress_tick_20k sign post to_addr iv c st tk = Inr mid"
    and r: "stress_loop_20k sign post to_addr iv c mid tks = Inr st'"
    by (auto simp: bind_err_def split: sum.splits)
  from m have "sleeps mid = sleeps st @
      [if current_time tk - last_batch_time st < iv
       then Some (iv - (current_time tk - last_batch_time st)) else None]"
    and "last_batch_time mid = time_after_gather tk"
    by (auto simp: stress_tick_20k_def bind_err_def Let_def split: sum.splits prod.splits)
  with Cons.IH [OF r] show ?case by simp
qed

lemma optimized_unfold:
  assumes "stress_test_transactions_optimized sign post to_addr g accounts tps res start ticks
             = Inr st'"
  shows "tps \<noteq> 0 \<and> accounts \<noteq> [] \<and>
         (\<exists>nc. seed_nonces g Map.empty accounts = Inr nc \<and>
            stress_loop_20k sign post to_addr (2000 / tps) (2000 div min 100 (length accounts))
              \<lparr>nonce_counters = nc, results = res, dispatched = [], sleeps = [],
               last_batch_time = start\<rparr> ticks = Inr st')"
  using assms
  by (auto simp: stress_test_transactions_optimized_def bind_err_def py_div_def py_floordiv_def
      Let_def split: sum.splits if_splits)

lemma blocktime_unfold:
  assumes "stress_test_transactions_blocktime sign post to_addr accounts tps res draws = Inr st'"
  shows "tps \<noteq> 0 \<and>
         stress_loop sign post to_addr (1000 / tps)
           \<lparr>nonce_counters = zero_nonces accounts, results = res, dispatched = [],
            sleeps = []\<rparr> draws = Inr st'"
  using assms
  by (auto simp: stress_test_transactions_blocktime_def bind_err_def py_div_def
      split: sum.splits if_splits)

lemma fixed_unfold:
  assumes "stress_test_transactions_fixed sign post to_addr g accounts tps res draws = Inr st'"
  shows "tps \<noteq> 0 \<and>
         (\<exists>nc. seed_nonces g Map.empty accounts = Inr nc \<and>
            stress_loop_fixed sign post to_addr (1000 / tps)
              \<lparr>nonce_counters = nc, results = res, dispatched = [], sleeps = []\<rparr> draws
              = Inr st')"
  using assms
  by (auto simp: stress_test_transactions_fixed_def bind_err_def py_div_def
      split: sum.splits if_splits)

lemma blocktime_example_runs:
  "\<exists>st. stress_test_transactions_blocktime (\<lambda>tx key. Some ''f86c'') (\<lambda>p. Json True)
          (\<lambda>a n. ''0xA'') [\<lparr>address = ''0xA'', private_key = ''ka''\<rparr>] 20000
          \<lparr>sent = 0, confirmed = 0, failed = 0, pending = 0\<rparr>
          [[\<lparr>address = ''0xA'', private_key = ''ka''\<rparr>], [\<lparr>address = ''0xA'', private_key = ''ka''\<rparr>]]
        = Inr st"
proof -
  have s: "\<forall>tx key. (\<lambda>(tx::transaction) (key::string). Some ''f86c'') tx key \<noteq> None" by simp
  show ?thesis
    using stress_loop_total [OF s, of
        "\<lparr>nonce_counters = zero_nonces [\<lparr>address = ''0xA'', private_key = ''ka''\<rparr>],
          results = \<lparr>sent = 0, confirmed = 0, failed = 0, pending = 0\<rparr>,
          dispatched = [], sleeps = []\<rparr>"
        "[[\<lparr>address = ''0xA'', private_key = ''ka''\<rparr>], [\<lparr>address = ''0xA'', private_key = ''ka''\<rparr>]]"
        "\<lambda>p. Json True" "\<lambda>a n. ''0xA''" "1 / 20"]
    by (simp add: stress_test_transactions_blocktime_def bind_err_def py_div_def zero_nonces_def)
qed

lemma fixed_example_runs:
  "\<exists>st. stress_test_transactions_fixed (\<lambda>tx key. Some ''f86c'') (\<lambda>p. Json True)
          (\<lambda>a n. ''0xA'') (\<lambda>a. Some 5) [\<lparr>address = ''0xA'', private_key = ''ka''\<rparr>] 20000
          \<lparr>sent = 0, confirmed = 0, failed = 0, pending = 0\<rparr>
          [[\<lparr>address = ''0xA'', private_key = ''ka''\<rparr>]] = Inr st"
proof -
  have s: "\<forall>tx key. (\<lambda>(tx::transaction) (key::string). Some ''f86c'') tx key \<noteq> None" by simp
  show ?thesis
    using stress_loop_fixed_total [OF s, of
        "\<lparr>nonce_counters = [''0xA'' \<mapsto> 5],
          results = \<lparr>sent = 0, confirmed = 0, failed = 0, pending = 0\<rparr>,
          dispatched = [], sleeps = []\<rparr>"
        "[[\<lparr>address = ''0xA'', private_key = ''ka''\<rparr>]]"
        "\<lambda>p. Json True" "\<lambda>a n. ''0xA''" "1 / 20"]
    by (simp add: stress_test_transactions_fixed_def bind_err_def py_div_def)
qed

text \<open>
  Claim C5, amended. \<^verbatim>\<open>stress_test_transactions\<close> of \<^verbatim>\<open>stress_test_blocktime.py\<close> and
  of \<^verbatim>\<open>stress_test_blocktime_fixed.py\<close> reads no clock between its batches: every
  iteration of its loop, once its batch is gathered, sleeps the whole interval
  \<open>1000 / tps\<close>, however long the batch took. A run of \<open>n\<close> iterations sleeps \<open>n\<close> times
  that interval.
\<close>

theorem rate_control_sleeps:
  "(stress_test_transactions_blocktime sign post to_addr accounts tps res draws = Inr st'
      \<longrightarrow> sleeps st' = replicate (length draws) (Some (1000 / tps)))
   \<and> (stress_test_transactions_fixed sign post to_addr g accounts tps res draws = Inr st''
      \<longrightarrow> sleeps st'' = replicate (length draws) (Some (1000 / tps)))
   \<and> (stress_tick sign post to_addr batch_delay st tk = Inr st1
      \<longrightarrow> sleeps st1 = sleeps st @ [Some batch_delay])
   \<and> (stress_tick_fixed sign post to_addr batch_delay st tk = Inr st2
      \<longrightarrow> sleeps st2 = sleeps st @ [Some batch_delay])"
proof (intro conjI impI)
  assume "stress_test_transactions_blocktime sign post to_addr accounts tps res draws = Inr st'"
  from blocktime_unfold [OF this] stress_loop_sleeps
  show "sleeps st' = replicate (length draws) (Some (1000 / tps))" by fastforce
next
  assume "stress_test_transactions_fixed sign post to_addr g accounts tps res draws = Inr st''"
  from fixed_unfold [OF this] stress_loop_fixed_sleeps
  show "sleeps st'' = replicate (length draws) (Some (1000 / tps))" by fastforce
next
  assume "stress_tick sign post to_addr batch_delay st tk = Inr st1"
  then show "sleeps st1 = sleeps st @ [Some batch_delay]"
    by (auto simp: stress_tick_def bind_err_def split: sum.splits prod.splits)
next
  assume "stress_tick_fixed sign post to_addr batch_delay st tk = Inr st2"
  then show "sleeps st2 = sleeps st @ [Some batch_delay]"
    by (auto simp: stress_tick_fixed_def bind_err_def split: sum.splits prod.splits)
qed

theorem rate_control_sleeps_witness:
  "(\<exists>st. stress_test_transactions_blocktime (\<lambda>tx key. Some ''f86c'') (\<lambda>p. Json True)
          (\<lambda>a n. ''0xA'') [\<lparr>address = ''0xA'', private_key = ''ka''\<rparr>] 20000
          \<lparr>sent = 0, confirmed = 0, failed = 0, pending = 0\<rparr>
          [[\<lparr>address = ''0xA'', private_key = ''ka''\<rparr>], [\<lparr>address = ''0xA'', private_key = ''ka''\<rparr>]]
        = Inr st
        \<and> sleeps st = [Some (1 / 20), Some (1 / 20)])
   \<and> (\<exists>st. stress_test_transactions_fixed (\<lambda>tx key. Some ''f86c'') (\<lambda>p. Json True)
          (\<lambda>a n. ''0xA'') (\<lambda>a. Some 5) [\<lparr>address = ''0xA'', private_key = ''ka''\<rparr>] 20000
          \<lparr>sent = 0, confirmed = 0, failed = 0, pending = 0\<rparr>
          [[\<lparr>address = ''0xA'', private_key = ''ka''\<rparr>]] = Inr st
        \<and> sleeps st = [Some (1 / 20)])
   \<and> (\<exists>st. stress_tick (\<lambda>tx key. Some ''f86c'') (\<lambda>p. Json True) (\<lambda>a n. ''0xA'') (1 / 20)
          \<lparr>nonce_counters = [''0xA'' \<mapsto> 5],
           results = \<lparr>sent = 0, confirmed = 0, failed = 0, pending = 0\<rparr>,
           dispatched = [], sleeps = [Some (1 / 20)]\<rparr> [] = Inr st
        \<and> sleeps st = [Some (1 / 20), Some (1 / 20)])
   \<and> (\<exists>st. stress_tick_fixed (\<lambda>tx key. Some ''f86c'') (\<lambda>p. Json True) (\<lambda>a n. ''0xA'') (1 / 20)
          \<lparr>nonce_counters = [''0xA'' \<mapsto> 5],
           results = \<lparr>sent = 0, confirmed = 0, failed = 0, pending = 0\<rparr>,
           dispatched = [], sleeps = [Some (1 / 20)]\<rparr> [] = Inr st
        \<and> sleeps st = [Some (1 / 20), Some (1 / 20)])"
proof -
  let ?sign = "\<lambda>(tx::transaction) (key::string). Some ''f86c''"
  let ?post = "\<lambda>p::payload. Json True"
  let ?to = "\<lambda>(a::string) (n::nat). ''0xA''"
  let ?A = "\<lparr>address = ''0xA'', private_key = ''ka''\<rparr>"
  let ?res = "\<lparr>sent = 0, confirmed = 0, failed = 0, pending = 0\<rparr>"
  let ?st = "\<lparr>nonce_counters = [''0xA'' \<mapsto> (5::nat)], results = ?res,
              dispatched = [], sleeps = [Some (1 / 20)]\<rparr>"
  obtain st' where b: "stress_test_transactions_blocktime ?sign ?post ?to [?A] 20000 ?res
                         [[?A], [?A]] = Inr st'"
    using blocktime_example_runs by blast
  obtain st'' where c: "stress_test_transactions_fixed ?sign ?post ?to (\<lambda>a. Some 5) [?A] 20000 ?res
                          [[?A]] = Inr st''"
    using fixed_example_runs by blast
  have t1: "stress_tick ?sign ?post ?to (1 / 20) ?st []
              = Inr (?st\<lparr>sleeps := sleeps ?st @ [Some (1 / 20)]\<rparr>)"
    by (simp add: stress_tick_def bind_err_def)
  have t2: "stress_tick_fixed ?sign ?post ?to (1 / 20) ?st []
              = Inr (?st\<lparr>sleeps := sleeps ?st @ [Some (1 / 20)]\<rparr>)"
    by (simp add: stress_tick_fixed_def bind_err_def)
  note inst = rate_control_sleeps [of ?sign ?post ?to "[?A]" 20000 ?res "[[?A], [?A]]" st'
      "\<lambda>a. Some 5" _ "1 / 20" ?st "[]" "?st\<lparr>sleeps := sleeps ?st @ [Some (1 / 20)]\<rparr>"
      "?st\<lparr>sleeps := sleeps ?st @ [Some (1 / 20)]\<rparr>"]
  note inst2 = rate_control_sleeps [of ?sign ?post ?to "[?A]" 20000 ?res "[[?A]]" _
      "\<lambda>a. Some 5" st'']
  from inst b have "sleeps st' = [Some (1 / 20), Some (1 / 20)]"
    by (simp add: numeral_2_eq_2)
  moreover from inst2 c have "sleeps st'' = [Some (1 / 20)]" by simp
  ultimately show ?thesis using b c t1 t2 by auto
qed

text \<open>
  Claim C5 as stated fails in \<^verbatim>\<open>stress_test_blocktime.py\<close>: at 20000 transactions per
  second the interval is 0.05 s, and every iteration sleeps 0.05 s. After a batch that
  took 0.3 s the claim has the generator go on at once; after one that took 0.01 s it
  has it sleep the remaining 0.04 s.
\<close>

theorem rate_control_counterexample:
  "\<exists>st'. stress_test_transactions_blocktime (\<lambda>tx key. Some ''f86c'') (\<lambda>p. Json True)
          (\<lambda>a n. ''0xA'') [\<lparr>address = ''0xA'', private_key = ''ka''\<rparr>] 20000
          \<lparr>sent = 0, confirmed = 0, failed = 0, pending = 0\<rparr>
          [[\<lparr>address = ''0xA'', private_key = ''ka''\<rparr>], [\<lparr>address = ''0xA'', private_key = ''ka''\<rparr>]]
        = Inr st'
      \<and> sleeps st' = [Some (1 / 20), Some (1 / 20)]
      \<and> closed_loop_sleep_spec (1000 / 20000) (3 / 10) = None
      \<and> closed_loop_sleep_spec (1000 / 20000) (1 / 100) = Some (1 / 25)
      \<and> sleeps st' \<noteq> [closed_loop_sleep_spec (1000 / 20000) (3 / 10),
                       closed_loop_sleep_spec (1000 / 20000) (1 / 100)]"
proof -
  obtain st' where b: "stress_test_transactions_blocktime (\<lambda>tx key. Some ''f86c'') (\<lambda>p. Json True)
          (\<lambda>a n. ''0xA'') [\<lparr>address = ''0xA'', private_key = ''ka''\<rparr>] 20000
          \<lparr>sent = 0, confirmed = 0, failed = 0, pending = 0\<rparr>
          [[\<lparr>address = ''0xA'', private_key = ''ka''\<rparr>], [\<lparr>address = ''0xA'', private_key = ''ka''\<rparr>]]
        = Inr st'"
    using blocktime_example_runs by blast
  from blocktime_unfold [OF b] have
    "stress_loop (\<lambda>tx key. Some ''f86c'') (\<lambda>p. Json True) (\<lambda>a n. ''0xA'') (1000 / 20000)
       \<lparr>nonce_counters = zero_nonces [\<lparr>address = ''0xA'', private_key = ''ka''\<rparr>],
        results = \<lparr>sent = 0, confirmed = 0, failed = 0, pending = 0\<rparr>, dispatched = [],
        sleeps = []\<rparr>
       [[\<lparr>address = ''0xA'', private_key = ''ka''\<rparr>], [\<lparr>address = ''0xA'', private_key = ''ka''\<rparr>]]
     = Inr st'" by blast
  from stress_loop_sleeps [OF this]
  have t: "sleeps st' = [Some (1 / 20), Some (1 / 20)]" by (simp add: numeral_2_eq_2)
  have c: "closed_loop_sleep_spec (1000 / 20000) (3 / 10) = None"
    "closed_loop_sleep_spec (1000 / 20000) (1 / 100) = Some (1 / 25)"
    by (simp_all add: closed_loop_sleep_spec_def)
  from b t c show ?thesis by (intro exI [of _ st']) simp
qed

lemma stress_loop_no_senders:
  assumes "list_all (\<lambda>d. d = []) draws"
  shows "stress_loop sign post to_addr d st draws
           = Inr (st\<lparr>sleeps := sleeps st @ replicate (length draws) (Some d)\<rparr>)"
  using assms
proof (induction draws arbitrary: st)
  case Nil
  then show ?case by simp
next
  case (Cons tk tks)
  then have e: "tk = []" and r: "list_all (\<lambda>d. d = []) tks" by simp_all
  have "stress_tick sign post to_addr d st [] = Inr (st\<lparr>sleeps := sleeps st @ [Some d]\<rparr>)"
    by (simp add: stress_tick_def bind_err_def)
  with e Cons.IH [OF r, of "st\<lparr>sleeps := sleeps st @ [Some d]\<rparr>"] show ?case
    by (simp add: bind_err_def replicate_app_Cons_same)
qed

lemma stress_loop_fixed_no_senders:
  assumes "list_all (\<lambda>d. d = []) draws"
  shows "stress_loop_fixed sign post to_addr d st draws
           = Inr (st\<lparr>sleeps := sleeps st @ replicate (length draws) (Some d)\<rparr>)"
  using assms
proof (induction draws arbitrary: st)
  case Nil
  then show ?case by simp
next
  case (Cons tk tks)
  then have e: "tk = []" and r: "list_all (\<lambda>d. d = []) tks" by simp_all
  have "stress_tick_fixed sign post to_addr d st [] = Inr (st\<lparr>sleeps := sleeps st @ [Some d]\<rparr>)"
    by (simp add: stress_tick_fixed_def bind_err_def)
  with e Cons.IH [OF r, of "st\<lparr>sleeps := sleeps st @ [Some d]\<rparr>"] show ?case
    by (simp add: bind_err_def replicate_app_Cons_same)
qed

text \<open>
  Claim C7, amended. With no account, \<^verbatim>\<open>stress_test_transactions_optimized\<close> stops
  before its loop with the \<^verbatim>\<open>ZeroDivisionError\<close> of
  \<^verbatim>\<open>transactions_per_batch // concurrent_senders\<close> (or of the interval, when the target
  rate is zero). \<^verbatim>\<open>stress_test_transactions\<close> of the two other scripts runs to its
  deadline: every draw of senders is empty, every iteration creates no task, counts
  nothing and sleeps the batch delay, and the phase ends without an exception.
\<close>

theorem zero_accounts_behaviour:
  assumes "list_all (\<lambda>d. d = []) draws" and "tps \<noteq> 0"
  shows "stress_test_transactions_optimized sign post to_addr g [] rate res start ticks
           = Inl ZeroDivisionError
       \<and> stress_test_transactions_blocktime sign post to_addr [] tps res draws
           = Inr \<lparr>nonce_counters = Map.empty, results = res, dispatched = [],
                  sleeps = replicate (length draws) (Some (1000 / tps))\<rparr>
       \<and> stress_test_transactions_fixed sign post to_addr g [] tps res draws
           = Inr \<lparr>nonce_counters = Map.empty, results = res, dispatched = [],
                  sleeps = replicate (length draws) (Some (1000 / tps))\<rparr>"
proof (intro conjI)
  show "stress_test_transactions_optimized sign post to_addr g [] rate res start ticks
           = Inl ZeroDivisionError"
    by (simp add: stress_test_transactions_optimized_def bind_err_def py_div_def py_floordiv_def)
  show "stress_test_transactions_blocktime sign post to_addr [] tps res draws
           = Inr \<lparr>nonce_counters = Map.empty, results = res, dispatched = [],
                  sleeps = replicate (length draws) (Some (1000 / tps))\<rparr>"
    using assms(2) stress_loop_no_senders [OF assms(1)]
    by (simp add: stress_test_transactions_blocktime_def bind_err_def py_div_def zero_nonces_def)
  show "stress_test_transactions_fixed sign post to_addr g [] tps res draws
           = Inr \<lparr>nonce_counters = Map.empty, results = res, dispatched = [],
                  sleeps = replicate (length draws) (Some (1000 / tps))\<rparr>"
    using assms(2) stress_loop_fixed_no_senders [OF assms(1)]
    by (simp add: stress_test_transactions_fixed_def bind_err_def py_div_def)
qed

theorem zero_accounts_behaviour_witness:
  "stress_test_transactions_optimized (\<lambda>tx key. Some ''f86c'') (\<lambda>p. Json True) (\<lambda>a n. ''0xA'')
      (\<lambda>a. Some 5) [] 20000 \<lparr>sent = 0, confirmed = 0, failed = 0, pending = 0\<rparr> 10 []
     = Inl ZeroDivisionError
   \<and> stress_test_transactions_blocktime (\<lambda>tx key. Some ''f86c'') (\<lambda>p. Json True) (\<lambda>a n. ''0xA'')
      [] 20000 \<lparr>sent = 0, confirmed = 0, failed = 0, pending = 0\<rparr> [[], []]
     = Inr \<lparr>nonce_counters = Map.empty,
            results = \<lparr>sent = 0, confirmed = 0, failed = 0, pending = 0\<rparr>, dispatched = [],
            sleeps = [Some (1 / 20), Some (1 / 20)]\<rparr>"
proof -
  have h1: "list_all (\<lambda>d. d = []) [[], [] :: account list]" by simp
  have h2: "(20000::real) \<noteq> 0" by simp
  from zero_accounts_behaviour [OF h1 h2, of "\<lambda>tx key. Some ''f86c''" "\<lambda>p. Json True"
      "\<lambda>a n. ''0xA''" "\<lambda>a. Some 5" 20000 "\<lparr>sent = 0, confirmed = 0, failed = 0, pending = 0\<rparr>" 10 "[]"]
  show ?thesis by (simp add: numeral_2_eq_2)
qed

text \<open>
  Claim C7 as stated fails: there is no \<^verbatim>\<open>InsufficientAccounts\<close>. With an empty account
  list one script raises \<^verbatim>\<open>ZeroDivisionError\<close>, the other runs three iterations and
  returns.
\<close>

theorem zero_accounts_counterexample:
  "stress_test_transactions_optimized (\<lambda>tx key. Some ''f86c'') (\<lambda>p. Json True) (\<lambda>a n. ''0xA'')
      (\<lambda>a. Some 5) [] 20000 \<lparr>sent = 0, confirmed = 0, failed = 0, pending = 0\<rparr> 10 []
     = Inl ZeroDivisionError
   \<and> stress_test_transactions_blocktime (\<lambda>tx key. Some ''f86c'') (\<lambda>p. Json True) (\<lambda>a n. ''0xA'')
      [] 20000 \<lparr>sent = 0, confirmed = 0, failed = 0, pending = 0\<rparr> [[], [], []]
     = Inr \<lparr>nonce_counters = Map.empty,
            results = \<lparr>sent = 0, confirmed = 0, failed = 0, pending = 0\<rparr>, dispatched = [],
            sleeps = [Some (1 / 20), Some (1 / 20), Some (1 / 20)]\<rparr>"
  by (simp add: stress_test_transactions_optimized_def stress_test_transactions_blocktime_def
      stress_tick_def bind_err_def py_div_def py_floordiv_def zero_nonces_def)

end
